theory Spec2Isabelle
  imports Complex_Main
begin

section \<open>JavaScript numbers, idealised\<close>

text \<open>
  The library computes on JavaScript numbers (IEEE-754 doubles). The model keeps the
  special values that steer the control flow of the source (\<open>NaN\<close>, \<open>+Infinity\<close>,
  \<open>-Infinity\<close>) and replaces every finite double by the real number it stands for:
  finite arithmetic is exact (no rounding, no overflow, no underflow) and there is a single
  zero (no \<open>-0\<close>). A division of a positive finite number by zero therefore gives
  \<open>+Infinity\<close>, \<open>0/0\<close> gives \<open>NaN\<close>, every comparison with \<open>NaN\<close> is false and
  \<open>NaN\<close> propagates through arithmetic, as in the language.

  What a double rounds to is therefore not derived here. Where the behaviour of an
  operation turns on it (the haversine term of \<open>distanceTo\<close>, which is at most 1 in exact
  arithmetic and rounds to \<open>1.0000000000000002\<close> for some nearly antipodal points), the
  statement takes the rounded value as given and uses no fact that holds of reals only.
\<close>

datatype num = Fin real | PInf | NInf | NaN

fun neg :: "num \<Rightarrow> num" where
  "neg (Fin a) = Fin (- a)"
| "neg PInf = NInf"
| "neg NInf = PInf"
| "neg NaN = NaN"

fun add :: "num \<Rightarrow> num \<Rightarrow> num" where
  "add (Fin a) (Fin b) = Fin (a + b)"
| "add NaN _ = NaN"
| "add _ NaN = NaN"
| "add PInf NInf = NaN"
| "add NInf PInf = NaN"
| "add PInf _ = PInf"
| "add _ PInf = PInf"
| "add NInf _ = NInf"
| "add _ NInf = NInf"

fun mul :: "num \<Rightarrow> num \<Rightarrow> num" where
  "mul (Fin a) (Fin b) = Fin (a * b)"
| "mul NaN _ = NaN"
| "mul _ NaN = NaN"
| "mul (Fin a) PInf = (if a = 0 then NaN else if 0 < a then PInf else NInf)"
| "mul (Fin a) NInf = (if a = 0 then NaN else if 0 < a then NInf else PInf)"
| "mul PInf (Fin b) = (if b = 0 then NaN else if 0 < b then PInf else NInf)"
| "mul NInf (Fin b) = (if b = 0 then NaN else if 0 < b then NInf else PInf)"
| "mul PInf PInf = PInf"
| "mul PInf NInf = NInf"
| "mul NInf PInf = NInf"
| "mul NInf NInf = PInf"

fun quot :: "num \<Rightarrow> num \<Rightarrow> num" where
  "quot (Fin a) (Fin b) =
     (if b \<noteq> 0 then Fin (a / b) else if a = 0 then NaN else if 0 < a then PInf else NInf)"
| "quot NaN _ = NaN"
| "quot _ NaN = NaN"
| "quot (Fin a) PInf = Fin 0"
| "quot (Fin a) NInf = Fin 0"
| "quot PInf (Fin b) = (if 0 \<le> b then PInf else NInf)"
| "quot NInf (Fin b) = (if 0 \<le> b then NInf else PInf)"
| "quot PInf PInf = NaN"
| "quot PInf NInf = NaN"
| "quot NInf PInf = NaN"
| "quot NInf NInf = NaN"

text \<open>
  The remainder operator \<open>%\<close> truncates the quotient towards zero, so the result has the
  sign of the dividend: \<open>-460 % 360\<close> is \<open>-100\<close>, not \<open>260\<close>.
\<close>

definition trunc :: "real \<Rightarrow> int" where
  "trunc r = (if 0 \<le> r then \<lfloor>r\<rfloor> else \<lceil>r\<rceil>)"

fun rem :: "num \<Rightarrow> num \<Rightarrow> num" where
  "rem (Fin a) (Fin b) = (if b = 0 then NaN else Fin (a - b * of_int (trunc (a / b))))"
| "rem (Fin a) PInf = Fin a"
| "rem (Fin a) NInf = Fin a"
| "rem _ _ = NaN"

fun lt :: "num \<Rightarrow> num \<Rightarrow> bool" where
  "lt (Fin a) (Fin b) = (a < b)"
| "lt NaN _ = False"
| "lt _ NaN = False"
| "lt _ NInf = False"
| "lt PInf _ = False"
| "lt NInf _ = True"
| "lt _ PInf = True"

text \<open>The operators of the source, on \<^typ>\<open>num\<close>: \<open>+ - * /\<close>, unary minus, \<open><\<close> and \<open>>\<close>.\<close>

instantiation num :: "{plus, minus, uminus, times, inverse, ord}"
begin

definition plus_num :: "num \<Rightarrow> num \<Rightarrow> num" where
  "plus_num a b = add a b"

definition uminus_num :: "num \<Rightarrow> num" where
  "uminus_num a = neg a"

definition minus_num :: "num \<Rightarrow> num \<Rightarrow> num" where
  "minus_num a b = add a (neg b)"

definition times_num :: "num \<Rightarrow> num \<Rightarrow> num" where
  "times_num a b = mul a b"

definition divide_num :: "num \<Rightarrow> num \<Rightarrow> num" where
  "divide_num a b = quot a b"

definition inverse_num :: "num \<Rightarrow> num" where
  "inverse_num a = quot (Fin 1) a"

definition less_num :: "num \<Rightarrow> num \<Rightarrow> bool" where
  "less_num a b = lt a b"

definition less_eq_num :: "num \<Rightarrow> num \<Rightarrow> bool" where
  "less_eq_num a b = (lt a b \<or> (a = b \<and> a \<noteq> NaN))"

instance ..

end

text \<open>\<open>a == b\<close> on numbers: \<open>NaN\<close> is not equal to itself.\<close>

definition num_eq :: "num \<Rightarrow> num \<Rightarrow> bool" where
  "num_eq a b = (a = b \<and> a \<noteq> NaN)"

definition isNaN :: "num \<Rightarrow> bool" where
  "isNaN x = (case x of NaN \<Rightarrow> True | _ \<Rightarrow> False)"

definition isFinite :: "num \<Rightarrow> bool" where
  "isFinite x = (case x of Fin _ \<Rightarrow> True | _ \<Rightarrow> False)"

subsection \<open>The \<open>Math\<close> object\<close>

definition Math_PI :: num where
  "Math_PI = Fin pi"

fun Math_abs :: "num \<Rightarrow> num" where
  "Math_abs (Fin a) = Fin \<bar>a\<bar>"
| "Math_abs PInf = PInf"
| "Math_abs NInf = PInf"
| "Math_abs NaN = NaN"

fun Math_sin :: "num \<Rightarrow> num" where
  "Math_sin (Fin a) = Fin (sin a)"
| "Math_sin _ = NaN"

fun Math_cos :: "num \<Rightarrow> num" where
  "Math_cos (Fin a) = Fin (cos a)"
| "Math_cos _ = NaN"

text \<open>
  With exact arguments the tangent has poles; there the model takes the quotient
  \<open>sin/cos\<close> in \<^typ>\<open>num\<close>, an infinity.
\<close>

definition Math_tan :: "num \<Rightarrow> num" where
  "Math_tan x = Math_sin x / Math_cos x"

fun Math_sqrt :: "num \<Rightarrow> num" where
  "Math_sqrt (Fin a) = (if 0 \<le> a then Fin (sqrt a) else NaN)"
| "Math_sqrt PInf = PInf"
| "Math_sqrt _ = NaN"

fun Math_log :: "num \<Rightarrow> num" where
  "Math_log (Fin a) = (if 0 < a then Fin (ln a) else if a = 0 then NInf else NaN)"
| "Math_log PInf = PInf"
| "Math_log _ = NaN"

fun Math_asin :: "num \<Rightarrow> num" where
  "Math_asin (Fin a) = (if - 1 \<le> a \<and> a \<le> 1 then Fin (arcsin a) else NaN)"
| "Math_asin _ = NaN"

fun Math_acos :: "num \<Rightarrow> num" where
  "Math_acos (Fin a) = (if - 1 \<le> a \<and> a \<le> 1 then Fin (arccos a) else NaN)"
| "Math_acos _ = NaN"

definition atan2 :: "real \<Rightarrow> real \<Rightarrow> real" where
  "atan2 y x =
     (if 0 < x then arctan (y / x)
      else if x < 0 then (if 0 \<le> y then arctan (y / x) + pi else arctan (y / x) - pi)
      else if 0 < y then pi / 2
      else if y < 0 then - (pi / 2)
      else 0)"

fun Math_atan2 :: "num \<Rightarrow> num \<Rightarrow> num" where
  "Math_atan2 (Fin y) (Fin x) = Fin (atan2 y x)"
| "Math_atan2 NaN _ = NaN"
| "Math_atan2 _ NaN = NaN"
| "Math_atan2 (Fin y) PInf = Fin 0"
| "Math_atan2 (Fin y) NInf = (if 0 \<le> y then Fin pi else Fin (- pi))"
| "Math_atan2 PInf (Fin x) = Fin (pi / 2)"
| "Math_atan2 NInf (Fin x) = Fin (- (pi / 2))"
| "Math_atan2 PInf PInf = Fin (pi / 4)"
| "Math_atan2 NInf PInf = Fin (- (pi / 4))"
| "Math_atan2 PInf NInf = Fin (3 * pi / 4)"
| "Math_atan2 NInf NInf = Fin (- (3 * pi / 4))"

text \<open>\<open>Number.prototype.toRadians\<close> and \<open>Number.prototype.toDegrees\<close>.\<close>

definition toRadians :: "num \<Rightarrow> num" where
  "toRadians this = this * Math_PI / Fin 180"

definition toDegrees :: "num \<Rightarrow> num" where
  "toDegrees this = this * Fin 180 / Math_PI"


section \<open>Points and argument values\<close>

text \<open>
  A \<open>LatLon\<close> object holds two numbers; the constructor stores \<open>Number(lat)\<close> and
  \<open>Number(lon)\<close> without validation.
\<close>

record LatLon =
  lat :: num
  lon :: num

text \<open>
  The language is dynamically typed, so an argument that should be a point can be any
  value. The model distinguishes a \<open>LatLon\<close> instance, another object (of which only the
  properties \<open>lat\<close> and \<open>lon\<close> matter, each absent or a number), a number, \<open>null\<close> and
  \<open>undefined\<close>.
\<close>

datatype jsval =
    VLatLon LatLon
  | VObject "num option" "num option"
  | VNumber num
  | VNull
  | VUndefined

text \<open>
  The only exception of the library is \<open>TypeError\<close>. The explicit guards throw it with a
  message; the message of one raised by the engine itself (reading a property of
  \<open>null\<close> or \<open>undefined\<close>, calling a method of \<open>undefined\<close>) is implementation-defined
  and modelled as the empty string.
\<close>

datatype error = TypeError string

definition instanceof_LatLon :: "jsval \<Rightarrow> bool" where
  "instanceof_LatLon v = (case v of VLatLon _ \<Rightarrow> True | _ \<Rightarrow> False)"

text \<open>\<open>v.lat.toRadians()\<close> and \<open>v.lon.toRadians()\<close> on an unchecked value \<open>v\<close>.\<close>

fun lat_toRadians :: "jsval \<Rightarrow> error + num" where
  "lat_toRadians (VLatLon p) = Inr (toRadians (lat p))"
| "lat_toRadians (VObject (Some x) _) = Inr (toRadians x)"
| "lat_toRadians _ = Inl (TypeError [])"

fun lon_toRadians :: "jsval \<Rightarrow> error + num" where
  "lon_toRadians (VLatLon p) = Inr (toRadians (lon p))"
| "lon_toRadians (VObject _ (Some x)) = Inr (toRadians x)"
| "lon_toRadians _ = Inl (TypeError [])"

definition bind :: "error + 'a \<Rightarrow> ('a \<Rightarrow> error + 'b) \<Rightarrow> error + 'b" where
  "bind m f = (case m of Inl e \<Rightarrow> Inl e | Inr x \<Rightarrow> f x)"

text \<open>\<open>radius = (radius === undefined) ? 6371e3 : Number(radius)\<close>\<close>

definition radius_or_default :: "num option \<Rightarrow> num" where
  "radius_or_default radius = (case radius of None \<Rightarrow> Fin 6371000 | Some r \<Rightarrow> r)"

section \<open>Great-circle operations\<close>

definition distanceTo :: "LatLon \<Rightarrow> jsval \<Rightarrow> num option \<Rightarrow> error + num" where
  "distanceTo this point radius =
     (case point of
        VLatLon p \<Rightarrow>
          (let R = radius_or_default radius;
               phi1 = toRadians (lat this); lam1 = toRadians (lon this);
               phi2 = toRadians (lat p); lam2 = toRadians (lon p);
               dphi = phi2 - phi1;
               dlam = lam2 - lam1;
               a = Math_sin (dphi / Fin 2) * Math_sin (dphi / Fin 2)
                   + Math_cos phi1 * Math_cos phi2
                   * Math_sin (dlam / Fin 2) * Math_sin (dlam / Fin 2);
               c = Fin 2 * Math_atan2 (Math_sqrt a) (Math_sqrt (Fin 1 - a));
               d = R * c
           in Inr d)
      | _ \<Rightarrow> Inl (TypeError ''point is not LatLon object''))"

definition bearingTo :: "LatLon \<Rightarrow> jsval \<Rightarrow> error + num" where
  "bearingTo this point =
     (case point of
        VLatLon p \<Rightarrow>
          (let phi1 = toRadians (lat this); phi2 = toRadians (lat p);
               dlam = toRadians (lon p - lon this);
               y = Math_sin dlam * Math_cos phi2;
               x = Math_cos phi1 * Math_sin phi2
                   - Math_sin phi1 * Math_cos phi2 * Math_cos dlam;
               theta = Math_atan2 y x
           in Inr (rem (toDegrees theta + Fin 360) (Fin 360)))
      | _ \<Rightarrow> Inl (TypeError ''point is not LatLon object''))"

definition finalBearingTo :: "LatLon \<Rightarrow> jsval \<Rightarrow> error + num" where
  "finalBearingTo this point =
     (case point of
        VLatLon p \<Rightarrow>
          bind (bearingTo p (VLatLon this)) (\<lambda>b. Inr (rem (b + Fin 180) (Fin 360)))
      | _ \<Rightarrow> Inl (TypeError ''point is not LatLon object''))"

definition midpointTo :: "LatLon \<Rightarrow> jsval \<Rightarrow> error + LatLon" where
  "midpointTo this point =
     (case point of
        VLatLon p \<Rightarrow>
          (let phi1 = toRadians (lat this); lam1 = toRadians (lon this);
               phi2 = toRadians (lat p);
               dlam = toRadians (lon p - lon this);
               Bx = Math_cos phi2 * Math_cos dlam;
               By = Math_cos phi2 * Math_sin dlam;
               x = Math_sqrt ((Math_cos phi1 + Bx) * (Math_cos phi1 + Bx) + By * By);
               y = Math_sin phi1 + Math_sin phi2;
               phi3 = Math_atan2 y x;
               lam3 = lam1 + Math_atan2 By (Math_cos phi1 + Bx)
           in Inr \<lparr>lat = toDegrees phi3,
                    lon = rem (toDegrees lam3 + Fin 540) (Fin 360) - Fin 180\<rparr>)
      | _ \<Rightarrow> Inl (TypeError ''point is not LatLon object''))"

definition intermediatePointTo :: "LatLon \<Rightarrow> jsval \<Rightarrow> num \<Rightarrow> error + LatLon" where
  "intermediatePointTo this point fraction =
     (case point of
        VLatLon p \<Rightarrow>
          (let phi1 = toRadians (lat this); lam1 = toRadians (lon this);
               phi2 = toRadians (lat p); lam2 = toRadians (lon p);
               sinphi1 = Math_sin phi1; cosphi1 = Math_cos phi1;
               sinlam1 = Math_sin lam1; coslam1 = Math_cos lam1;
               sinphi2 = Math_sin phi2; cosphi2 = Math_cos phi2;
               sinlam2 = Math_sin lam2; coslam2 = Math_cos lam2;
               dphi = phi2 - phi1;
               dlam = lam2 - lam1;
               a = Math_sin (dphi / Fin 2) * Math_sin (dphi / Fin 2)
                   + Math_cos phi1 * Math_cos phi2
                   * Math_sin (dlam / Fin 2) * Math_sin (dlam / Fin 2);
               delta = Fin 2 * Math_atan2 (Math_sqrt a) (Math_sqrt (Fin 1 - a));
               A = Math_sin ((Fin 1 - fraction) * delta) / Math_sin delta;
               B = Math_sin (fraction * delta) / Math_sin delta;
               x = A * cosphi1 * coslam1 + B * cosphi2 * coslam2;
               y = A * cosphi1 * sinlam1 + B * cosphi2 * sinlam2;
               z = A * sinphi1 + B * sinphi2;
               phi3 = Math_atan2 z (Math_sqrt (x * x + y * y));
               lam3 = Math_atan2 y x
           in Inr \<lparr>lat = toDegrees phi3,
                    lon = rem (toDegrees lam3 + Fin 540) (Fin 360) - Fin 180\<rparr>)
      | _ \<Rightarrow> Inl (TypeError ''point is not LatLon object''))"

definition destinationPoint :: "LatLon \<Rightarrow> num \<Rightarrow> num \<Rightarrow> num option \<Rightarrow> LatLon" where
  "destinationPoint this distance bearing radius =
     (let radius = radius_or_default radius;
          delta = distance / radius;
          theta = toRadians bearing;
          phi1 = toRadians (lat this);
          lam1 = toRadians (lon this);
          phi2 = Math_asin (Math_sin phi1 * Math_cos delta
                            + Math_cos phi1 * Math_sin delta * Math_cos theta);
          x = Math_cos delta - Math_sin phi1 * Math_sin phi2;
          y = Math_sin theta * Math_sin delta * Math_cos phi1;
          lam2 = lam1 + Math_atan2 y x
      in \<lparr>lat = toDegrees phi2,
          lon = rem (toDegrees lam2 + Fin 540) (Fin 360) - Fin 180\<rparr>)"

text \<open>
  \<open>LatLon.intersection\<close>: \<open>null\<close> is \<open>None\<close>. The guard \<open>isNaN\<close> follows the first
  arc cosine only, as in the source.
\<close>

definition intersection :: "jsval \<Rightarrow> num \<Rightarrow> jsval \<Rightarrow> num \<Rightarrow> error + LatLon option" where
  "intersection p1 brng1 p2 brng2 =
     (case p1 of
        VLatLon q1 \<Rightarrow>
          (case p2 of
             VLatLon q2 \<Rightarrow>
               (let phi1 = toRadians (lat q1); lam1 = toRadians (lon q1);
                    phi2 = toRadians (lat q2); lam2 = toRadians (lon q2);
                    theta13 = toRadians brng1; theta23 = toRadians brng2;
                    dphi = phi2 - phi1; dlam = lam2 - lam1;
                    delta12 = Fin 2 * Math_asin (Math_sqrt
                      (Math_sin (dphi / Fin 2) * Math_sin (dphi / Fin 2)
                       + Math_cos phi1 * Math_cos phi2
                         * Math_sin (dlam / Fin 2) * Math_sin (dlam / Fin 2)))
                in if num_eq delta12 (Fin 0) then Inr None
                   else
                     (let thetaa0 = Math_acos ((Math_sin phi2 - Math_sin phi1 * Math_cos delta12)
                                               / (Math_sin delta12 * Math_cos phi1));
                          thetaa = (if isNaN thetaa0 then Fin 0 else thetaa0);
                          thetab = Math_acos ((Math_sin phi1 - Math_sin phi2 * Math_cos delta12)
                                              / (Math_sin delta12 * Math_cos phi2));
                          theta12 = (if Math_sin (lam2 - lam1) > Fin 0 then thetaa
                                     else Fin 2 * Math_PI - thetaa);
                          theta21 = (if Math_sin (lam2 - lam1) > Fin 0 then Fin 2 * Math_PI - thetab
                                     else thetab);
                          alpha1 = rem (theta13 - theta12 + Math_PI) (Fin 2 * Math_PI) - Math_PI;
                          alpha2 = rem (theta21 - theta23 + Math_PI) (Fin 2 * Math_PI) - Math_PI
                      in if num_eq (Math_sin alpha1) (Fin 0) \<and> num_eq (Math_sin alpha2) (Fin 0)
                         then Inr None
                         else if Math_sin alpha1 * Math_sin alpha2 < Fin 0 then Inr None
                         else
                           (let alpha3 = Math_acos (- Math_cos alpha1 * Math_cos alpha2
                                  + Math_sin alpha1 * Math_sin alpha2 * Math_cos delta12);
                                delta13 = Math_atan2
                                  (Math_sin delta12 * Math_sin alpha1 * Math_sin alpha2)
                                  (Math_cos alpha2 + Math_cos alpha1 * Math_cos alpha3);
                                phi3 = Math_asin (Math_sin phi1 * Math_cos delta13
                                  + Math_cos phi1 * Math_sin delta13 * Math_cos theta13);
                                dlam13 = Math_atan2
                                  (Math_sin theta13 * Math_sin delta13 * Math_cos phi1)
                                  (Math_cos delta13 - Math_sin phi1 * Math_sin phi3);
                                lam3 = lam1 + dlam13
                            in Inr (Some \<lparr>lat = toDegrees phi3,
                                 lon = rem (toDegrees lam3 + Fin 540) (Fin 360) - Fin 180\<rparr>))))
           | _ \<Rightarrow> Inl (TypeError ''p2 is not LatLon object''))
      | _ \<Rightarrow> Inl (TypeError ''p1 is not LatLon object''))"

definition crossTrackDistanceTo :: "LatLon \<Rightarrow> jsval \<Rightarrow> jsval \<Rightarrow> num option \<Rightarrow> error + num" where
  "crossTrackDistanceTo this pathStart pathEnd radius =
     (case pathStart of
        VLatLon ps \<Rightarrow>
          (case pathEnd of
             VLatLon pe \<Rightarrow>
               (let radius = radius_or_default radius
                in bind (distanceTo ps (VLatLon this) (Some radius)) (\<lambda>d.
                   bind (bearingTo ps (VLatLon this)) (\<lambda>b13.
                   bind (bearingTo ps (VLatLon pe)) (\<lambda>b12.
                     (let delta13 = d / radius;
                          theta13 = toRadians b13;
                          theta12 = toRadians b12;
                          dxt = Math_asin (Math_sin delta13 * Math_sin (theta13 - theta12))
                                * radius
                      in Inr dxt)))))
           | _ \<Rightarrow> Inl (TypeError ''pathEnd is not LatLon object''))
      | _ \<Rightarrow> Inl (TypeError ''pathStart is not LatLon object''))"

definition maxLatitude :: "LatLon \<Rightarrow> num \<Rightarrow> num" where
  "maxLatitude this bearing =
     (let theta = toRadians bearing;
          phi = toRadians (lat this);
          phiMax = Math_acos (Math_abs (Math_sin theta * Math_cos phi))
      in toDegrees phiMax)"

text \<open>
  \<open>LatLon.crossingParallels\<close> has no \<open>instanceof\<close> guard: it reads \<open>lat\<close> and \<open>lon\<close> of
  whatever it is given.
\<close>

record crossing =
  lon1 :: num
  lon2 :: num

definition crossingParallels :: "jsval \<Rightarrow> jsval \<Rightarrow> num \<Rightarrow> error + crossing option" where
  "crossingParallels point1 point2 latitude =
     (let phi = toRadians latitude
      in bind (lat_toRadians point1) (\<lambda>phi1.
         bind (lon_toRadians point1) (\<lambda>lam1.
         bind (lat_toRadians point2) (\<lambda>phi2.
         bind (lon_toRadians point2) (\<lambda>lam2.
           (let dlam = lam2 - lam1;
                x = Math_sin phi1 * Math_cos phi2 * Math_cos phi * Math_sin dlam;
                y = Math_sin phi1 * Math_cos phi2 * Math_cos phi * Math_cos dlam
                    - Math_cos phi1 * Math_sin phi2 * Math_cos phi;
                z = Math_cos phi1 * Math_cos phi2 * Math_sin phi * Math_sin dlam
            in if z * z > x * x + y * y then Inr None
               else
                 (let lamm = Math_atan2 (- y) x;
                      dlami = Math_acos (z / Math_sqrt (x * x + y * y));
                      lami1 = lam1 + lamm - dlami;
                      lami2 = lam1 + lamm + dlami
                  in Inr (Some \<lparr>lon1 = rem (toDegrees lami1 + Fin 540) (Fin 360) - Fin 180,
                                lon2 = rem (toDegrees lami2 + Fin 540) (Fin 360) - Fin 180\<rparr>))))))))"

section \<open>Rhumb-line operations\<close>

definition rhumbDistanceTo :: "LatLon \<Rightarrow> jsval \<Rightarrow> num option \<Rightarrow> error + num" where
  "rhumbDistanceTo this point radius =
     (case point of
        VLatLon p \<Rightarrow>
          (let R = radius_or_default radius;
               phi1 = toRadians (lat this); phi2 = toRadians (lat p);
               dphi = phi2 - phi1;
               dlam0 = toRadians (Math_abs (lon p - lon this));
               dlam = (if Math_abs dlam0 > Math_PI
                       then (if dlam0 > Fin 0 then - (Fin 2 * Math_PI - dlam0)
                             else Fin 2 * Math_PI + dlam0)
                       else dlam0);
               dpsi = Math_log (Math_tan (phi2 / Fin 2 + Math_PI / Fin 4)
                                / Math_tan (phi1 / Fin 2 + Math_PI / Fin 4));
               q = (if Math_abs dpsi > Fin (10 / 10 ^ 12) then dphi / dpsi else Math_cos phi1);
               delta = Math_sqrt (dphi * dphi + q * q * dlam * dlam);
               dist = delta * R
           in Inr dist)
      | _ \<Rightarrow> Inl (TypeError ''point is not LatLon object''))"

definition rhumbBearingTo :: "LatLon \<Rightarrow> jsval \<Rightarrow> error + num" where
  "rhumbBearingTo this point =
     (case point of
        VLatLon p \<Rightarrow>
          (let phi1 = toRadians (lat this); phi2 = toRadians (lat p);
               dlam0 = toRadians (lon p - lon this);
               dlam = (if Math_abs dlam0 > Math_PI
                       then (if dlam0 > Fin 0 then - (Fin 2 * Math_PI - dlam0)
                             else Fin 2 * Math_PI + dlam0)
                       else dlam0);
               dpsi = Math_log (Math_tan (phi2 / Fin 2 + Math_PI / Fin 4)
                                / Math_tan (phi1 / Fin 2 + Math_PI / Fin 4));
               theta = Math_atan2 dlam dpsi
           in Inr (rem (toDegrees theta + Fin 360) (Fin 360)))
      | _ \<Rightarrow> Inl (TypeError ''point is not LatLon object''))"

definition rhumbDestinationPoint :: "LatLon \<Rightarrow> num \<Rightarrow> num \<Rightarrow> num option \<Rightarrow> LatLon" where
  "rhumbDestinationPoint this distance bearing radius =
     (let radius = radius_or_default radius;
          delta = distance / radius;
          phi1 = toRadians (lat this); lam1 = toRadians (lon this);
          theta = toRadians bearing;
          dphi = delta * Math_cos theta;
          phi20 = phi1 + dphi;
          phi2 = (if Math_abs phi20 > Math_PI / Fin 2
                  then (if phi20 > Fin 0 then Math_PI - phi20 else - Math_PI - phi20)
                  else phi20);
          dpsi = Math_log (Math_tan (phi2 / Fin 2 + Math_PI / Fin 4)
                           / Math_tan (phi1 / Fin 2 + Math_PI / Fin 4));
          q = (if Math_abs dpsi > Fin (10 / 10 ^ 12) then dphi / dpsi else Math_cos phi1);
          dlam = delta * Math_sin theta / q;
          lam2 = lam1 + dlam
      in \<lparr>lat = toDegrees phi2,
          lon = rem (toDegrees lam2 + Fin 540) (Fin 360) - Fin 180\<rparr>)"

definition rhumbMidpointTo :: "LatLon \<Rightarrow> jsval \<Rightarrow> error + LatLon" where
  "rhumbMidpointTo this point =
     (case point of
        VLatLon p \<Rightarrow>
          (let phi1 = toRadians (lat this); lam10 = toRadians (lon this);
               phi2 = toRadians (lat p); lam2 = toRadians (lon p);
               lam1 = (if Math_abs (lam2 - lam10) > Math_PI then lam10 + Fin 2 * Math_PI
                       else lam10);
               phi3 = (phi1 + phi2) / Fin 2;
               f1 = Math_tan (Math_PI / Fin 4 + phi1 / Fin 2);
               f2 = Math_tan (Math_PI / Fin 4 + phi2 / Fin 2);
               f3 = Math_tan (Math_PI / Fin 4 + phi3 / Fin 2);
               lam30 = ((lam2 - lam1) * Math_log f3 + lam1 * Math_log f2 - lam2 * Math_log f1)
                       / Math_log (f2 / f1);
               lam3 = (if \<not> isFinite lam30 then (lam1 + lam2) / Fin 2 else lam30)
           in Inr \<lparr>lat = toDegrees phi3,
                    lon = rem (toDegrees lam3 + Fin 540) (Fin 360) - Fin 180\<rparr>)
      | _ \<Rightarrow> Inl (TypeError ''point is not LatLon object''))"


section \<open>Intermediate values of the operations\<close>

text \<open>
  The statements below speak about local variables of the source (\<open>\<delta>12\<close>, \<open>\<alpha>1\<close>, \<open>q\<close>,
  \<open>\<Delta>\<psi>\<close>, the longitude before normalisation, and so on). Each is defined here by the
  expressions the source assigns to it, and is tied to the operation by a lemma further down.
\<close>

text \<open>
  The haversine term \<open>a\<close> of \<open>distanceTo\<close>, and the distance \<open>d\<close> that its last statements
  compute from the radius and \<open>a\<close>.
\<close>

definition distanceTo_a :: "LatLon \<Rightarrow> LatLon \<Rightarrow> num" where
  "distanceTo_a this p =
     (let phi1 = toRadians (lat this); lam1 = toRadians (lon this);
          phi2 = toRadians (lat p); lam2 = toRadians (lon p);
          dphi = phi2 - phi1;
          dlam = lam2 - lam1
      in Math_sin (dphi / Fin 2) * Math_sin (dphi / Fin 2)
         + Math_cos phi1 * Math_cos phi2
         * Math_sin (dlam / Fin 2) * Math_sin (dlam / Fin 2))"

definition distanceTo_d :: "num \<Rightarrow> num \<Rightarrow> num" where
  "distanceTo_d R a =
     (let c = Fin 2 * Math_atan2 (Math_sqrt a) (Math_sqrt (Fin 1 - a));
          d = R * c
      in d)"

text \<open>\<open>(\<lambda>.toDegrees()+540)%360-180\<close>, the expression every operation ends its longitude with.\<close>

definition normalise :: "num \<Rightarrow> num" where
  "normalise lam = rem (toDegrees lam + Fin 540) (Fin 360) - Fin 180"

text \<open>
  The interval the normalisation reaches, \<open>[-180, 180)\<close>; the interval of the specification,
  \<open>(-180, 180]\<close>; and the longitudes (radians, before normalisation) on which the
  normalisation works: those that are a finite number of at least \<open>-540\<close> degrees.
\<close>

definition in_normal_range :: "num \<Rightarrow> bool" where
  "in_normal_range x = (case x of Fin l \<Rightarrow> - 180 \<le> l \<and> l < 180 | _ \<Rightarrow> False)"

definition in_claimed_range :: "num \<Rightarrow> bool" where
  "in_claimed_range x = (case x of Fin l \<Rightarrow> - 180 < l \<and> l \<le> 180 | _ \<Rightarrow> False)"

definition normalisable :: "num \<Rightarrow> bool" where
  "normalisable lam = (case toDegrees lam of Fin r \<Rightarrow> - 540 \<le> r | _ \<Rightarrow> False)"

definition midpointTo_lam3 :: "LatLon \<Rightarrow> LatLon \<Rightarrow> num" where
  "midpointTo_lam3 this p =
     (let phi1 = toRadians (lat this); lam1 = toRadians (lon this);
          phi2 = toRadians (lat p);
          dlam = toRadians (lon p - lon this);
          Bx = Math_cos phi2 * Math_cos dlam;
          By = Math_cos phi2 * Math_sin dlam
      in lam1 + Math_atan2 By (Math_cos phi1 + Bx))"

definition intermediatePointTo_delta :: "LatLon \<Rightarrow> LatLon \<Rightarrow> num" where
  "intermediatePointTo_delta this p =
     (let phi1 = toRadians (lat this); lam1 = toRadians (lon this);
          phi2 = toRadians (lat p); lam2 = toRadians (lon p);
          dphi = phi2 - phi1;
          dlam = lam2 - lam1;
          a = Math_sin (dphi / Fin 2) * Math_sin (dphi / Fin 2)
              + Math_cos phi1 * Math_cos phi2
              * Math_sin (dlam / Fin 2) * Math_sin (dlam / Fin 2)
      in Fin 2 * Math_atan2 (Math_sqrt a) (Math_sqrt (Fin 1 - a)))"

definition intermediatePointTo_A :: "LatLon \<Rightarrow> LatLon \<Rightarrow> num \<Rightarrow> num" where
  "intermediatePointTo_A this p fraction =
     (let delta = intermediatePointTo_delta this p
      in Math_sin ((Fin 1 - fraction) * delta) / Math_sin delta)"

definition intermediatePointTo_B :: "LatLon \<Rightarrow> LatLon \<Rightarrow> num \<Rightarrow> num" where
  "intermediatePointTo_B this p fraction =
     (let delta = intermediatePointTo_delta this p
      in Math_sin (fraction * delta) / Math_sin delta)"

definition intermediatePointTo_lam3 :: "LatLon \<Rightarrow> LatLon \<Rightarrow> num \<Rightarrow> num" where
  "intermediatePointTo_lam3 this p fraction =
     (let phi1 = toRadians (lat this); lam1 = toRadians (lon this);
          phi2 = toRadians (lat p); lam2 = toRadians (lon p);
          cosphi1 = Math_cos phi1; sinlam1 = Math_sin lam1; coslam1 = Math_cos lam1;
          cosphi2 = Math_cos phi2; sinlam2 = Math_sin lam2; coslam2 = Math_cos lam2;
          A = intermediatePointTo_A this p fraction;
          B = intermediatePointTo_B this p fraction;
          x = A * cosphi1 * coslam1 + B * cosphi2 * coslam2;
          y = A * cosphi1 * sinlam1 + B * cosphi2 * sinlam2
      in Math_atan2 y x)"

definition destinationPoint_lam2 :: "LatLon \<Rightarrow> num \<Rightarrow> num \<Rightarrow> num option \<Rightarrow> num" where
  "destinationPoint_lam2 this distance bearing radius =
     (let radius = radius_or_default radius;
          delta = distance / radius;
          theta = toRadians bearing;
          phi1 = toRadians (lat this);
          lam1 = toRadians (lon this);
          phi2 = Math_asin (Math_sin phi1 * Math_cos delta
                            + Math_cos phi1 * Math_sin delta * Math_cos theta);
          x = Math_cos delta - Math_sin phi1 * Math_sin phi2;
          y = Math_sin theta * Math_sin delta * Math_cos phi1
      in lam1 + Math_atan2 y x)"

definition intersection_delta12 :: "LatLon \<Rightarrow> LatLon \<Rightarrow> num" where
  "intersection_delta12 q1 q2 =
     (let phi1 = toRadians (lat q1); lam1 = toRadians (lon q1);
          phi2 = toRadians (lat q2); lam2 = toRadians (lon q2);
          dphi = phi2 - phi1; dlam = lam2 - lam1
      in Fin 2 * Math_asin (Math_sqrt
           (Math_sin (dphi / Fin 2) * Math_sin (dphi / Fin 2)
            + Math_cos phi1 * Math_cos phi2
              * Math_sin (dlam / Fin 2) * Math_sin (dlam / Fin 2))))"

text \<open>\<open>\<theta>a\<close> before and after its guard, and \<open>\<theta>b\<close>, which has none.\<close>

definition intersection_thetaa0 :: "LatLon \<Rightarrow> LatLon \<Rightarrow> num" where
  "intersection_thetaa0 q1 q2 =
     (let phi1 = toRadians (lat q1); phi2 = toRadians (lat q2);
          delta12 = intersection_delta12 q1 q2
      in Math_acos ((Math_sin phi2 - Math_sin phi1 * Math_cos delta12)
                    / (Math_sin delta12 * Math_cos phi1)))"

definition intersection_thetaa :: "LatLon \<Rightarrow> LatLon \<Rightarrow> num" where
  "intersection_thetaa q1 q2 =
     (if isNaN (intersection_thetaa0 q1 q2) then Fin 0 else intersection_thetaa0 q1 q2)"

definition intersection_thetab :: "LatLon \<Rightarrow> LatLon \<Rightarrow> num" where
  "intersection_thetab q1 q2 =
     (let phi1 = toRadians (lat q1); phi2 = toRadians (lat q2);
          delta12 = intersection_delta12 q1 q2
      in Math_acos ((Math_sin phi1 - Math_sin phi2 * Math_cos delta12)
                    / (Math_sin delta12 * Math_cos phi2)))"

definition intersection_alpha1 :: "LatLon \<Rightarrow> num \<Rightarrow> LatLon \<Rightarrow> num" where
  "intersection_alpha1 q1 brng1 q2 =
     (let lam1 = toRadians (lon q1); lam2 = toRadians (lon q2);
          theta13 = toRadians brng1;
          thetaa = intersection_thetaa q1 q2;
          theta12 = (if Math_sin (lam2 - lam1) > Fin 0 then thetaa
                     else Fin 2 * Math_PI - thetaa)
      in rem (theta13 - theta12 + Math_PI) (Fin 2 * Math_PI) - Math_PI)"

definition intersection_alpha2 :: "LatLon \<Rightarrow> LatLon \<Rightarrow> num \<Rightarrow> num" where
  "intersection_alpha2 q1 q2 brng2 =
     (let lam1 = toRadians (lon q1); lam2 = toRadians (lon q2);
          theta23 = toRadians brng2;
          thetab = intersection_thetab q1 q2;
          theta21 = (if Math_sin (lam2 - lam1) > Fin 0 then Fin 2 * Math_PI - thetab
                     else thetab)
      in rem (theta21 - theta23 + Math_PI) (Fin 2 * Math_PI) - Math_PI)"

definition intersection_lam3 :: "LatLon \<Rightarrow> num \<Rightarrow> LatLon \<Rightarrow> num \<Rightarrow> num" where
  "intersection_lam3 q1 brng1 q2 brng2 =
     (let phi1 = toRadians (lat q1); lam1 = toRadians (lon q1);
          theta13 = toRadians brng1;
          delta12 = intersection_delta12 q1 q2;
          alpha1 = intersection_alpha1 q1 brng1 q2;
          alpha2 = intersection_alpha2 q1 q2 brng2;
          alpha3 = Math_acos (- Math_cos alpha1 * Math_cos alpha2
                              + Math_sin alpha1 * Math_sin alpha2 * Math_cos delta12);
          delta13 = Math_atan2 (Math_sin delta12 * Math_sin alpha1 * Math_sin alpha2)
                               (Math_cos alpha2 + Math_cos alpha1 * Math_cos alpha3);
          phi3 = Math_asin (Math_sin phi1 * Math_cos delta13
                            + Math_cos phi1 * Math_sin delta13 * Math_cos theta13);
          dlam13 = Math_atan2 (Math_sin theta13 * Math_sin delta13 * Math_cos phi1)
                              (Math_cos delta13 - Math_sin phi1 * Math_sin phi3)
      in lam1 + dlam13)"

text \<open>The vector components \<open>x\<close>, \<open>y\<close>, \<open>z\<close> of \<open>crossingParallels\<close>, on reals (radians).\<close>

definition crossing_x :: "real \<Rightarrow> real \<Rightarrow> real \<Rightarrow> real \<Rightarrow> real" where
  "crossing_x phi1 phi2 phi dlam = sin phi1 * cos phi2 * cos phi * sin dlam"

definition crossing_y :: "real \<Rightarrow> real \<Rightarrow> real \<Rightarrow> real \<Rightarrow> real" where
  "crossing_y phi1 phi2 phi dlam =
     sin phi1 * cos phi2 * cos phi * cos dlam - cos phi1 * sin phi2 * cos phi"

definition crossing_z :: "real \<Rightarrow> real \<Rightarrow> real \<Rightarrow> real \<Rightarrow> real" where
  "crossing_z phi1 phi2 phi dlam = cos phi1 * cos phi2 * sin phi * sin dlam"

text \<open>
  The great circle through two points, in the words of the specification: the points of
  the unit sphere orthogonal to the vector product \<open>n\<close> of the two position vectors
  \<open>(cos \<phi> cos \<lambda>, cos \<phi> sin \<lambda>, sin \<phi>)\<close>. It reaches a latitude when one of its points has
  that latitude. Angles of \<open>on_great_circle\<close> are in radians, those of \<open>attains_latitude\<close>
  in degrees.
\<close>

definition radians :: "real \<Rightarrow> real" where
  "radians d = d * pi / 180"

definition normal_x :: "real \<Rightarrow> real \<Rightarrow> real \<Rightarrow> real \<Rightarrow> real" where
  "normal_x phi1 lam1 phi2 lam2 = cos phi1 * sin lam1 * sin phi2 - sin phi1 * (cos phi2 * sin lam2)"

definition normal_y :: "real \<Rightarrow> real \<Rightarrow> real \<Rightarrow> real \<Rightarrow> real" where
  "normal_y phi1 lam1 phi2 lam2 = sin phi1 * (cos phi2 * cos lam2) - cos phi1 * cos lam1 * sin phi2"

definition normal_z :: "real \<Rightarrow> real \<Rightarrow> real \<Rightarrow> real \<Rightarrow> real" where
  "normal_z phi1 lam1 phi2 lam2 =
     cos phi1 * cos lam1 * (cos phi2 * sin lam2) - cos phi1 * sin lam1 * (cos phi2 * cos lam2)"

definition on_great_circle :: "real \<Rightarrow> real \<Rightarrow> real \<Rightarrow> real \<Rightarrow> real \<Rightarrow> real \<Rightarrow> bool" where
  "on_great_circle phi1 lam1 phi2 lam2 phi lam =
     (normal_x phi1 lam1 phi2 lam2 * (cos phi * cos lam)
      + normal_y phi1 lam1 phi2 lam2 * (cos phi * sin lam)
      + normal_z phi1 lam1 phi2 lam2 * sin phi = 0)"

definition attains_latitude :: "real \<Rightarrow> real \<Rightarrow> real \<Rightarrow> real \<Rightarrow> real \<Rightarrow> bool" where
  "attains_latitude la1 lo1 la2 lo2 l =
     (\<exists>lam. on_great_circle (radians la1) (radians lo1) (radians la2) (radians lo2)
              (radians l) lam)"

text \<open>
  A latitude exceeds the maximum latitude of the great circle when it is above every
  latitude (between \<open>-90\<close> and \<open>90\<close> degrees) that the great circle attains, and is below the
  minimum when it is below every one of them.
\<close>

definition exceeds_maximum :: "real \<Rightarrow> real \<Rightarrow> real \<Rightarrow> real \<Rightarrow> real \<Rightarrow> bool" where
  "exceeds_maximum la1 lo1 la2 lo2 l =
     (\<forall>l'. - 90 \<le> l' \<and> l' \<le> 90 \<and> attains_latitude la1 lo1 la2 lo2 l' \<longrightarrow> l' < l)"

definition below_minimum :: "real \<Rightarrow> real \<Rightarrow> real \<Rightarrow> real \<Rightarrow> real \<Rightarrow> bool" where
  "below_minimum la1 lo1 la2 lo2 l =
     (\<forall>l'. - 90 \<le> l' \<and> l' \<le> 90 \<and> attains_latitude la1 lo1 la2 lo2 l' \<longrightarrow> l < l')"

definition crossingParallels_lami1 :: "LatLon \<Rightarrow> LatLon \<Rightarrow> num \<Rightarrow> num" where
  "crossingParallels_lami1 point1 point2 latitude =
     (let phi = toRadians latitude;
          phi1 = toRadians (lat point1); lam1 = toRadians (lon point1);
          phi2 = toRadians (lat point2); lam2 = toRadians (lon point2);
          dlam = lam2 - lam1;
          x = Math_sin phi1 * Math_cos phi2 * Math_cos phi * Math_sin dlam;
          y = Math_sin phi1 * Math_cos phi2 * Math_cos phi * Math_cos dlam
              - Math_cos phi1 * Math_sin phi2 * Math_cos phi;
          z = Math_cos phi1 * Math_cos phi2 * Math_sin phi * Math_sin dlam;
          lamm = Math_atan2 (- y) x;
          dlami = Math_acos (z / Math_sqrt (x * x + y * y))
      in lam1 + lamm - dlami)"

definition crossingParallels_lami2 :: "LatLon \<Rightarrow> LatLon \<Rightarrow> num \<Rightarrow> num" where
  "crossingParallels_lami2 point1 point2 latitude =
     (let phi = toRadians latitude;
          phi1 = toRadians (lat point1); lam1 = toRadians (lon point1);
          phi2 = toRadians (lat point2); lam2 = toRadians (lon point2);
          dlam = lam2 - lam1;
          x = Math_sin phi1 * Math_cos phi2 * Math_cos phi * Math_sin dlam;
          y = Math_sin phi1 * Math_cos phi2 * Math_cos phi * Math_cos dlam
              - Math_cos phi1 * Math_sin phi2 * Math_cos phi;
          z = Math_cos phi1 * Math_cos phi2 * Math_sin phi * Math_sin dlam;
          lamm = Math_atan2 (- y) x;
          dlami = Math_acos (z / Math_sqrt (x * x + y * y))
      in lam1 + lamm + dlami)"

text \<open>\<open>\<Delta>\<phi>\<close>, \<open>\<Delta>\<psi>\<close> and the stretch factor \<open>q\<close> of the two rhumb operations that compute one.\<close>

definition rhumbDistanceTo_dphi :: "LatLon \<Rightarrow> LatLon \<Rightarrow> num" where
  "rhumbDistanceTo_dphi this p = toRadians (lat p) - toRadians (lat this)"

definition rhumbDistanceTo_dlam :: "LatLon \<Rightarrow> LatLon \<Rightarrow> num" where
  "rhumbDistanceTo_dlam this p =
     (let dlam0 = toRadians (Math_abs (lon p - lon this))
      in if Math_abs dlam0 > Math_PI
         then (if dlam0 > Fin 0 then - (Fin 2 * Math_PI - dlam0) else Fin 2 * Math_PI + dlam0)
         else dlam0)"

definition rhumbDistanceTo_dpsi :: "LatLon \<Rightarrow> LatLon \<Rightarrow> num" where
  "rhumbDistanceTo_dpsi this p =
     (let phi1 = toRadians (lat this); phi2 = toRadians (lat p)
      in Math_log (Math_tan (phi2 / Fin 2 + Math_PI / Fin 4)
                   / Math_tan (phi1 / Fin 2 + Math_PI / Fin 4)))"

definition rhumbDistanceTo_q :: "LatLon \<Rightarrow> LatLon \<Rightarrow> num" where
  "rhumbDistanceTo_q this p =
     (let phi1 = toRadians (lat this);
          dphi = rhumbDistanceTo_dphi this p;
          dpsi = rhumbDistanceTo_dpsi this p
      in if Math_abs dpsi > Fin (10 / 10 ^ 12) then dphi / dpsi else Math_cos phi1)"

definition rhumbDestinationPoint_delta :: "num \<Rightarrow> num option \<Rightarrow> num" where
  "rhumbDestinationPoint_delta distance radius = distance / radius_or_default radius"

definition rhumbDestinationPoint_dphi :: "num \<Rightarrow> num \<Rightarrow> num option \<Rightarrow> num" where
  "rhumbDestinationPoint_dphi distance bearing radius =
     rhumbDestinationPoint_delta distance radius * Math_cos (toRadians bearing)"

definition rhumbDestinationPoint_phi2 :: "LatLon \<Rightarrow> num \<Rightarrow> num \<Rightarrow> num option \<Rightarrow> num" where
  "rhumbDestinationPoint_phi2 this distance bearing radius =
     (let phi1 = toRadians (lat this);
          dphi = rhumbDestinationPoint_dphi distance bearing radius;
          phi20 = phi1 + dphi
      in if Math_abs phi20 > Math_PI / Fin 2
         then (if phi20 > Fin 0 then Math_PI - phi20 else - Math_PI - phi20)
         else phi20)"

definition rhumbDestinationPoint_dpsi :: "LatLon \<Rightarrow> num \<Rightarrow> num \<Rightarrow> num option \<Rightarrow> num" where
  "rhumbDestinationPoint_dpsi this distance bearing radius =
     (let phi1 = toRadians (lat this);
          phi2 = rhumbDestinationPoint_phi2 this distance bearing radius
      in Math_log (Math_tan (phi2 / Fin 2 + Math_PI / Fin 4)
                   / Math_tan (phi1 / Fin 2 + Math_PI / Fin 4)))"

definition rhumbDestinationPoint_q :: "LatLon \<Rightarrow> num \<Rightarrow> num \<Rightarrow> num option \<Rightarrow> num" where
  "rhumbDestinationPoint_q this distance bearing radius =
     (let phi1 = toRadians (lat this);
          dphi = rhumbDestinationPoint_dphi distance bearing radius;
          dpsi = rhumbDestinationPoint_dpsi this distance bearing radius
      in if Math_abs dpsi > Fin (10 / 10 ^ 12) then dphi / dpsi else Math_cos phi1)"

definition rhumbDestinationPoint_lam2 :: "LatLon \<Rightarrow> num \<Rightarrow> num \<Rightarrow> num option \<Rightarrow> num" where
  "rhumbDestinationPoint_lam2 this distance bearing radius =
     (let delta = rhumbDestinationPoint_delta distance radius;
          lam1 = toRadians (lon this);
          theta = toRadians bearing;
          q = rhumbDestinationPoint_q this distance bearing radius;
          dlam = delta * Math_sin theta / q
      in lam1 + dlam)"

text \<open>
  The reflection of a latitude that went past a pole, in the words of the specification:
  \<open>\<phi>2 = sign(\<phi>2)\<cdot>\<pi> - \<phi>2\<close> when \<open>|\<phi>2| > \<pi>/2\<close>. Lemma \<open>reflect_code\<close> shows that it is the
  conditional of the source.
\<close>

definition reflect :: "real \<Rightarrow> real" where
  "reflect x = (if \<bar>x\<bar> > pi / 2 then sgn x * pi - x else x)"

definition rhumbMidpointTo_lam3 :: "LatLon \<Rightarrow> LatLon \<Rightarrow> num" where
  "rhumbMidpointTo_lam3 this p =
     (let phi1 = toRadians (lat this); lam10 = toRadians (lon this);
          phi2 = toRadians (lat p); lam2 = toRadians (lon p);
          lam1 = (if Math_abs (lam2 - lam10) > Math_PI then lam10 + Fin 2 * Math_PI
                  else lam10);
          phi3 = (phi1 + phi2) / Fin 2;
          f1 = Math_tan (Math_PI / Fin 4 + phi1 / Fin 2);
          f2 = Math_tan (Math_PI / Fin 4 + phi2 / Fin 2);
          f3 = Math_tan (Math_PI / Fin 4 + phi3 / Fin 2);
          lam30 = ((lam2 - lam1) * Math_log f3 + lam1 * Math_log f2 - lam2 * Math_log f1)
                  / Math_log (f2 / f1)
      in if \<not> isFinite lam30 then (lam1 + lam2) / Fin 2 else lam30)"

section \<open>Basic facts about the number model\<close>

lemmas num_ops =
  plus_num_def minus_num_def uminus_num_def times_num_def divide_num_def less_num_def

lemma toRadians_Fin: "toRadians (Fin x) = Fin (x * pi / 180)"
  by (simp add: toRadians_def Math_PI_def num_ops)

lemma toDegrees_Fin: "toDegrees (Fin x) = Fin (x * 180 / pi)"
  by (simp add: toDegrees_def Math_PI_def num_ops)

section \<open>Maximum latitude (Clairaut)\<close>

lemma maxLatitude_Fin:
  "\<exists>m. maxLatitude \<lparr>lat = Fin la, lon = lo\<rparr> (Fin b) = Fin m \<and> 0 \<le> m \<and> m \<le> 90"
proof -
  let ?k = "\<bar>sin (b * pi / 180) * cos (la * pi / 180)\<bar>"
  have k1: "?k \<le> 1"
    by (metis abs_mult abs_cos_le_one abs_sin_le_one mult_le_one abs_ge_zero)
  have k0: "0 \<le> ?k" by simp
  have km: "- 1 \<le> ?k" using k0 by linarith
  have "maxLatitude \<lparr>lat = Fin la, lon = lo\<rparr> (Fin b) = Fin (arccos ?k * 180 / pi)"
    using k1 km by (simp add: maxLatitude_def toRadians_Fin toDegrees_Fin num_ops Let_def)
  moreover have "0 \<le> arccos ?k" using k0 k1 by (simp add: arccos_lbound)
  moreover have "arccos ?k \<le> pi / 2" using k0 k1 arccos_le_pi2 by blast
  ultimately show ?thesis
    apply (rule_tac x="arccos ?k * 180 / pi" in exI)
    apply (simp add: field_simps)
    done
qed

text \<open>
  C10. For a point with a finite latitude and a finite bearing, \<open>maxLatitude\<close> returns a
  number between 0 and 90 (degrees); and two points of equal latitude, whatever their
  longitudes, give the same result for the same bearing: the function reads the latitude
  only.
\<close>

theorem maxLatitude_range_and_longitude_independent:
  "(\<exists>m. maxLatitude \<lparr>lat = Fin la, lon = lo\<rparr> (Fin b) = Fin m \<and> 0 \<le> m \<and> m \<le> 90)
   \<and> maxLatitude \<lparr>lat = l, lon = lo1\<rparr> b' = maxLatitude \<lparr>lat = l, lon = lo2\<rparr> b'"
  using maxLatitude_Fin [of la lo b] by (simp add: maxLatitude_def)


section \<open>Haversine distance\<close>

lemma atan2_0_1: "atan2 0 1 = 0"
  by (simp add: atan2_def)

lemma distanceTo_unfold:
  "distanceTo this (VLatLon p) radius
   = Inr (distanceTo_d (radius_or_default radius) (distanceTo_a this p))"
  by (simp add: distanceTo_def distanceTo_d_def distanceTo_a_def Let_def)

text \<open>
  The two directions compute the same haversine term, by facts that hold of doubles as
  they do of the model: the sine is odd, so its square is even, and the product commutes.
  Hence the two calls return the same value, a number or \<open>NaN\<close>.
\<close>

lemma num_mul_commute: "(a::num) * b = b * a"
  by (cases a; cases b) (simp_all add: num_ops mult.commute)

lemma num_diff_half_neg: "((x::num) - y) / Fin 2 = - ((y - x) / Fin 2)"
  by (cases x; cases y) (auto simp add: num_ops field_simps)

lemma Math_sin_neg: "Math_sin (- x) = - Math_sin x"
  by (cases x) (simp_all add: num_ops)

lemma num_mul_neg_neg: "(c::num) * (- s) * (- s) = c * s * s"
  by (cases c; cases s) (auto simp add: num_ops)

lemma num_neg_mul_neg: "(- s) * (- s) = s * (s::num)"
  by (cases s) (simp_all add: num_ops)

lemma distanceTo_a_sym: "distanceTo_a p q = distanceTo_a q p"
proof -
  let ?u = "(toRadians (lat p) - toRadians (lat q)) / Fin 2"
  let ?v = "(toRadians (lon p) - toRadians (lon q)) / Fin 2"
  have u: "(toRadians (lat q) - toRadians (lat p)) / Fin 2 = - ?u"
    by (rule num_diff_half_neg)
  have v: "(toRadians (lon q) - toRadians (lon p)) / Fin 2 = - ?v"
    by (rule num_diff_half_neg)
  have c: "Math_cos (toRadians (lat p)) * Math_cos (toRadians (lat q))
           = Math_cos (toRadians (lat q)) * Math_cos (toRadians (lat p))"
    by (rule num_mul_commute)
  show ?thesis
    unfolding distanceTo_a_def Let_def u v Math_sin_neg num_mul_neg_neg num_neg_mul_neg c ..
qed

lemma distanceTo_same_both_ways:
  "distanceTo p (VLatLon q) radius = distanceTo q (VLatLon p) radius"
  by (simp only: distanceTo_unfold distanceTo_a_sym [of p q])



section \<open>Intermediate point of coincident points\<close>

text \<open>
  C8. For two coincident points with finite coordinates and any fraction, the angular
  distance \<open>\<delta>\<close> computed by \<open>intermediatePointTo\<close> is 0, both interpolation weights are
  \<open>NaN\<close> (\<open>0/0\<close>, or the sine of \<open>NaN\<close> over 0), no branch intercepts this, and both
  coordinates of the returned point are \<open>NaN\<close>.
\<close>

theorem intermediatePointTo_coincident_NaN:
  "intermediatePointTo_delta \<lparr>lat = Fin la, lon = Fin lo\<rparr> \<lparr>lat = Fin la, lon = Fin lo\<rparr> = Fin 0
   \<and> intermediatePointTo_A \<lparr>lat = Fin la, lon = Fin lo\<rparr> \<lparr>lat = Fin la, lon = Fin lo\<rparr> f = NaN
   \<and> intermediatePointTo_B \<lparr>lat = Fin la, lon = Fin lo\<rparr> \<lparr>lat = Fin la, lon = Fin lo\<rparr> f = NaN
   \<and> intermediatePointTo \<lparr>lat = Fin la, lon = Fin lo\<rparr> (VLatLon \<lparr>lat = Fin la, lon = Fin lo\<rparr>) f
       = Inr \<lparr>lat = NaN, lon = NaN\<rparr>"
proof -
  have d: "intermediatePointTo_delta \<lparr>lat = Fin la, lon = Fin lo\<rparr> \<lparr>lat = Fin la, lon = Fin lo\<rparr>
           = Fin 0"
    by (simp add: intermediatePointTo_delta_def toRadians_Fin num_ops Let_def atan2_0_1)
  have A: "intermediatePointTo_A \<lparr>lat = Fin la, lon = Fin lo\<rparr> \<lparr>lat = Fin la, lon = Fin lo\<rparr> f
           = NaN"
    by (cases f) (simp_all add: intermediatePointTo_A_def d num_ops)
  have B: "intermediatePointTo_B \<lparr>lat = Fin la, lon = Fin lo\<rparr> \<lparr>lat = Fin la, lon = Fin lo\<rparr> f
           = NaN"
    by (cases f) (simp_all add: intermediatePointTo_B_def d num_ops)
  have r: "intermediatePointTo \<lparr>lat = Fin la, lon = Fin lo\<rparr>
             (VLatLon \<lparr>lat = Fin la, lon = Fin lo\<rparr>) f = Inr \<lparr>lat = NaN, lon = NaN\<rparr>"
    by (cases f)
       (simp_all add: intermediatePointTo_def toRadians_Fin toDegrees_def num_ops Let_def
          atan2_0_1)
  show ?thesis using d A B r by simp
qed

text \<open>The weights and \<open>\<delta>\<close> above are the ones the operation uses.\<close>

lemma intermediatePointTo_weights:
  "intermediatePointTo this (VLatLon p) f =
     (let phi1 = toRadians (lat this); lam1 = toRadians (lon this);
          phi2 = toRadians (lat p); lam2 = toRadians (lon p);
          A = intermediatePointTo_A this p f;
          B = intermediatePointTo_B this p f;
          x = A * Math_cos phi1 * Math_cos lam1 + B * Math_cos phi2 * Math_cos lam2;
          y = A * Math_cos phi1 * Math_sin lam1 + B * Math_cos phi2 * Math_sin lam2;
          z = A * Math_sin phi1 + B * Math_sin phi2
      in Inr \<lparr>lat = toDegrees (Math_atan2 z (Math_sqrt (x * x + y * y))),
              lon = rem (toDegrees (Math_atan2 y x) + Fin 540) (Fin 360) - Fin 180\<rparr>)"
  by (simp add: intermediatePointTo_def intermediatePointTo_A_def intermediatePointTo_B_def
      intermediatePointTo_delta_def Let_def)

section \<open>Intersection of two paths: the \<open>null\<close> results\<close>

lemma mul_neg_iff:
  "(a * b < Fin 0) = ((a < Fin 0 \<and> Fin 0 < b) \<or> (Fin 0 < a \<and> b < Fin 0))"
  by (cases a; cases b) (auto simp add: num_ops mult_less_0_iff)

lemma intersection_null_iff:
  "(intersection (VLatLon q1) b1 (VLatLon q2) b2 = Inr None) =
     (num_eq (intersection_delta12 q1 q2) (Fin 0)
      \<or> (num_eq (Math_sin (intersection_alpha1 q1 b1 q2)) (Fin 0)
         \<and> num_eq (Math_sin (intersection_alpha2 q1 q2 b2)) (Fin 0))
      \<or> Math_sin (intersection_alpha1 q1 b1 q2) * Math_sin (intersection_alpha2 q1 q2 b2)
          < Fin 0)"
  by (simp add: intersection_def intersection_alpha1_def intersection_alpha2_def
      intersection_thetaa_def intersection_thetaa0_def intersection_thetab_def
      intersection_delta12_def Let_def)

lemma intersection_null_or_point:
  "intersection (VLatLon q1) b1 (VLatLon q2) b2 = Inr None
   \<or> (\<exists>pt. intersection (VLatLon q1) b1 (VLatLon q2) b2 = Inr (Some pt))"
  by (simp add: intersection_def Let_def)

lemma intersection_delta12_same:
  "intersection_delta12 \<lparr>lat = Fin la, lon = Fin lo\<rparr> \<lparr>lat = Fin la, lon = Fin lo\<rparr> = Fin 0"
  by (simp add: intersection_delta12_def toRadians_Fin num_ops Let_def)

text \<open>
  C3. For two points and two bearings, \<open>intersection\<close> returns \<open>null\<close> exactly when
  \<open>\<delta>12 == 0\<close> (the start points coincide), or \<open>sin \<alpha>1 == 0\<close> and \<open>sin \<alpha>2 == 0\<close> (infinite
  intersections), or the sines of \<open>\<alpha>1\<close> and \<open>\<alpha>2\<close> have opposite signs; it returns \<open>null\<close> or
  a point and nothing else; and for equal points with finite coordinates it returns \<open>null\<close>.
\<close>

theorem intersection_null_exactly_when:
  "((intersection (VLatLon q1) b1 (VLatLon q2) b2 = Inr None) =
     (num_eq (intersection_delta12 q1 q2) (Fin 0)
      \<or> (num_eq (Math_sin (intersection_alpha1 q1 b1 q2)) (Fin 0)
         \<and> num_eq (Math_sin (intersection_alpha2 q1 q2 b2)) (Fin 0))
      \<or> (Math_sin (intersection_alpha1 q1 b1 q2) < Fin 0
         \<and> Fin 0 < Math_sin (intersection_alpha2 q1 q2 b2))
      \<or> (Fin 0 < Math_sin (intersection_alpha1 q1 b1 q2)
         \<and> Math_sin (intersection_alpha2 q1 q2 b2) < Fin 0)))
   \<and> (intersection (VLatLon q1) b1 (VLatLon q2) b2 = Inr None
      \<or> (\<exists>pt. intersection (VLatLon q1) b1 (VLatLon q2) b2 = Inr (Some pt)))
   \<and> intersection (VLatLon \<lparr>lat = Fin la, lon = Fin lo\<rparr>) b1'
        (VLatLon \<lparr>lat = Fin la, lon = Fin lo\<rparr>) b2' = Inr None"
proof -
  have same: "intersection (VLatLon \<lparr>lat = Fin la, lon = Fin lo\<rparr>) b1'
                (VLatLon \<lparr>lat = Fin la, lon = Fin lo\<rparr>) b2' = Inr None"
    by (simp add: intersection_null_iff intersection_delta12_same num_eq_def)
  show ?thesis
    using same intersection_null_or_point [of q1 b1 q2 b2]
    by (simp only: intersection_null_iff mul_neg_iff)
qed


text \<open>The intermediate values defined above are those of the operation.\<close>

lemma intersection_unfold:
  "intersection (VLatLon q1) b1 (VLatLon q2) b2 =
     (let phi1 = toRadians (lat q1); lam1 = toRadians (lon q1);
          theta13 = toRadians b1;
          delta12 = intersection_delta12 q1 q2;
          alpha1 = intersection_alpha1 q1 b1 q2;
          alpha2 = intersection_alpha2 q1 q2 b2
      in if num_eq delta12 (Fin 0) then Inr None
         else if num_eq (Math_sin alpha1) (Fin 0) \<and> num_eq (Math_sin alpha2) (Fin 0)
         then Inr None
         else if Math_sin alpha1 * Math_sin alpha2 < Fin 0 then Inr None
         else
           (let alpha3 = Math_acos (- Math_cos alpha1 * Math_cos alpha2
                                    + Math_sin alpha1 * Math_sin alpha2 * Math_cos delta12);
                delta13 = Math_atan2 (Math_sin delta12 * Math_sin alpha1 * Math_sin alpha2)
                                     (Math_cos alpha2 + Math_cos alpha1 * Math_cos alpha3);
                phi3 = Math_asin (Math_sin phi1 * Math_cos delta13
                                  + Math_cos phi1 * Math_sin delta13 * Math_cos theta13);
                dlam13 = Math_atan2 (Math_sin theta13 * Math_sin delta13 * Math_cos phi1)
                                    (Math_cos delta13 - Math_sin phi1 * Math_sin phi3);
                lam3 = lam1 + dlam13
            in Inr (Some \<lparr>lat = toDegrees phi3,
                           lon = rem (toDegrees lam3 + Fin 540) (Fin 360) - Fin 180\<rparr>)))"
  by (simp add: intersection_def intersection_alpha1_def intersection_alpha2_def
      intersection_thetaa_def intersection_thetaa0_def intersection_thetab_def
      intersection_delta12_def Let_def)

section \<open>Intersection of two paths: the guard against \<open>NaN\<close>\<close>

text \<open>The guarded angle \<open>\<theta>a\<close> is never \<open>NaN\<close>.\<close>

lemma intersection_thetaa_not_NaN: "\<not> isNaN (intersection_thetaa q1 q2)"
  by (simp add: intersection_thetaa_def isNaN_def)

lemma sqrt_half: "sqrt (1 / 2) = sin (pi / 4)"
  unfolding sin_45 by (rule real_sqrt_unique) (simp_all add: power2_eq_square)

lemma arcsin_sqrt_half: "arcsin (sqrt (1 / 2)) = pi / 4"
  unfolding sqrt_half by (rule arcsin_sin) simp_all

lemma sqrt_half_ge: "- 1 \<le> sqrt (1 / 2)"
proof -
  have "0 \<le> sqrt (1 / 2 :: real)" by simp
  then show ?thesis by linarith
qed

text \<open>\<open>NaN\<close> is absorbing.\<close>

lemma NaN_absorbs:
  "x + NaN = NaN" "NaN + x = NaN" "x - NaN = NaN" "NaN - x = NaN"
  "x * NaN = NaN" "NaN * x = NaN" "x / NaN = NaN" "NaN / x = NaN" "- NaN = NaN"
  "\<not> NaN < x" "\<not> x < NaN"
  by (cases x; simp add: num_ops)+

lemma Math_atan2_NaN: "Math_atan2 NaN x = NaN" "Math_atan2 x NaN = NaN"
  by (cases x; simp)+

text \<open>
  Whenever \<open>\<theta>b\<close> is \<open>NaN\<close> and the points do not coincide, whatever the bearings, the
  operation returns a point with both coordinates \<open>NaN\<close>.
\<close>

lemma intersection_NaN_of_thetab_NaN:
  assumes "intersection_thetab q1 q2 = NaN"
    and "\<not> num_eq (intersection_delta12 q1 q2) (Fin 0)"
  shows "intersection (VLatLon q1) b1 (VLatLon q2) b2 = Inr (Some \<lparr>lat = NaN, lon = NaN\<rparr>)"
proof -
  have a2: "intersection_alpha2 q1 q2 b2 = NaN"
    by (simp add: intersection_alpha2_def assms(1) Let_def NaN_absorbs)
  show ?thesis
    using assms(2)
    by (simp add: intersection_unfold a2 Let_def num_eq_def toDegrees_def NaN_absorbs
        Math_atan2_NaN)
qed

lemma asin_sqrt_sin_sq:
  assumes "0 \<le> x" and "x \<le> pi / 2"
  shows "Math_asin (Math_sqrt (Fin (sin x * sin x))) = Fin x"
proof -
  have s0: "0 \<le> sin x" using assms pi_gt_zero by (intro sin_ge_zero) linarith+
  have s1: "sin x \<le> 1" by simp
  have "sqrt (sin x * sin x) = sin x" using s0 by simp
  moreover have "arcsin (sin x) = x" using assms by (intro arcsin_sin) linarith+
  ultimately show ?thesis using s0 s1 by simp
qed

text \<open>
  The path from (1\<degree>N, 0\<degree>E) on bearing 90\<degree> and the path from the north pole
  (90\<degree>N, 0\<degree>E) on bearing 180\<degree>: the points are 89\<degree> apart.
\<close>

lemma pole_delta12:
  "intersection_delta12 \<lparr>lat = Fin 1, lon = Fin 0\<rparr> \<lparr>lat = Fin 90, lon = Fin 0\<rparr>
   = Fin (89 * pi / 180)"
proof -
  have "intersection_delta12 \<lparr>lat = Fin 1, lon = Fin 0\<rparr> \<lparr>lat = Fin 90, lon = Fin 0\<rparr>
        = Fin 2 * Math_asin (Math_sqrt (Fin (sin (89 * pi / 360) * sin (89 * pi / 360))))"
    by (simp add: intersection_delta12_def toRadians_Fin num_ops Let_def)
  also have "\<dots> = Fin 2 * Fin (89 * pi / 360)"
    by (subst asin_sqrt_sin_sq) simp_all
  finally show ?thesis by (simp add: num_ops)
qed

lemma cos_89: "cos (89 * pi / 180) = sin (pi / 180)"
proof -
  have "89 * pi / 180 = pi / 2 - pi / 180" by simp
  then show ?thesis by (simp only: cos_diff) simp
qed

lemma pole_thetab:
  "intersection_thetab \<lparr>lat = Fin 1, lon = Fin 0\<rparr> \<lparr>lat = Fin 90, lon = Fin 0\<rparr> = NaN"
  by (simp add: intersection_thetab_def pole_delta12 toRadians_Fin num_ops Let_def cos_89)

text \<open>
  C4. The guard \<open>if (isNaN(\<theta>a)) \<theta>a = 0\<close> follows the first arc cosine only. At the input
  \<open>LatLon.intersection(LatLon(1, 0), 90, LatLon(90, 0), 180)\<close> the argument of the second
  arc cosine is \<open>0/0\<close>, \<open>\<theta>b\<close> is \<open>NaN\<close>, nothing replaces it, and the returned point has
  \<open>NaN\<close> for both coordinates.
\<close>

theorem intersection_thetab_NaN_propagates:
  "intersection_thetab \<lparr>lat = Fin 1, lon = Fin 0\<rparr> \<lparr>lat = Fin 90, lon = Fin 0\<rparr> = NaN
   \<and> intersection (VLatLon \<lparr>lat = Fin 1, lon = Fin 0\<rparr>) (Fin 90)
        (VLatLon \<lparr>lat = Fin 90, lon = Fin 0\<rparr>) (Fin 180)
      = Inr (Some \<lparr>lat = NaN, lon = NaN\<rparr>)"
proof -
  have "intersection (VLatLon \<lparr>lat = Fin 1, lon = Fin 0\<rparr>) (Fin 90)
          (VLatLon \<lparr>lat = Fin 90, lon = Fin 0\<rparr>) (Fin 180)
        = Inr (Some \<lparr>lat = NaN, lon = NaN\<rparr>)"
    by (rule intersection_NaN_of_thetab_NaN) (simp_all add: pole_thetab pole_delta12 num_eq_def)
  then show ?thesis by (simp add: pole_thetab)
qed

section \<open>Arguments that are not points\<close>

text \<open>Every operation with an \<open>instanceof\<close> guard throws \<open>TypeError\<close> on a non-point.\<close>

lemma not_LatLon_cases:
  "\<not> instanceof_LatLon v \<Longrightarrow>
    (\<exists>a b. v = VObject a b) \<or> (\<exists>n. v = VNumber n) \<or> v = VNull \<or> v = VUndefined"
  by (cases v) (simp_all add: instanceof_LatLon_def)

lemma guard_distanceTo:
  "\<not> instanceof_LatLon v \<Longrightarrow>
    distanceTo this v r = Inl (TypeError ''point is not LatLon object'')"
  by (auto dest!: not_LatLon_cases simp add: distanceTo_def)

lemma guard_bearingTo:
  "\<not> instanceof_LatLon v \<Longrightarrow>
    bearingTo this v = Inl (TypeError ''point is not LatLon object'')"
  by (auto dest!: not_LatLon_cases simp add: bearingTo_def)

lemma guard_finalBearingTo:
  "\<not> instanceof_LatLon v \<Longrightarrow>
    finalBearingTo this v = Inl (TypeError ''point is not LatLon object'')"
  by (auto dest!: not_LatLon_cases simp add: finalBearingTo_def)

lemma guard_midpointTo:
  "\<not> instanceof_LatLon v \<Longrightarrow>
    midpointTo this v = Inl (TypeError ''point is not LatLon object'')"
  by (auto dest!: not_LatLon_cases simp add: midpointTo_def)

lemma guard_intermediatePointTo:
  "\<not> instanceof_LatLon v \<Longrightarrow>
    intermediatePointTo this v f = Inl (TypeError ''point is not LatLon object'')"
  by (auto dest!: not_LatLon_cases simp add: intermediatePointTo_def)

lemma guard_intersection_p1:
  "\<not> instanceof_LatLon v \<Longrightarrow>
    intersection v b1 w b2 = Inl (TypeError ''p1 is not LatLon object'')"
  by (auto dest!: not_LatLon_cases simp add: intersection_def)

lemma guard_intersection_p2:
  "\<not> instanceof_LatLon v \<Longrightarrow>
    intersection (VLatLon p) b1 v b2 = Inl (TypeError ''p2 is not LatLon object'')"
  by (auto dest!: not_LatLon_cases simp add: intersection_def)

lemma guard_crossTrackDistanceTo_pathStart:
  "\<not> instanceof_LatLon v \<Longrightarrow>
    crossTrackDistanceTo this v w r = Inl (TypeError ''pathStart is not LatLon object'')"
  by (auto dest!: not_LatLon_cases simp add: crossTrackDistanceTo_def)

lemma guard_crossTrackDistanceTo_pathEnd:
  "\<not> instanceof_LatLon v \<Longrightarrow>
    crossTrackDistanceTo this (VLatLon p) v r = Inl (TypeError ''pathEnd is not LatLon object'')"
  by (auto dest!: not_LatLon_cases simp add: crossTrackDistanceTo_def)

lemma guard_rhumbDistanceTo:
  "\<not> instanceof_LatLon v \<Longrightarrow>
    rhumbDistanceTo this v r = Inl (TypeError ''point is not LatLon object'')"
  by (auto dest!: not_LatLon_cases simp add: rhumbDistanceTo_def)

lemma guard_rhumbBearingTo:
  "\<not> instanceof_LatLon v \<Longrightarrow>
    rhumbBearingTo this v = Inl (TypeError ''point is not LatLon object'')"
  by (auto dest!: not_LatLon_cases simp add: rhumbBearingTo_def)

lemma guard_rhumbMidpointTo:
  "\<not> instanceof_LatLon v \<Longrightarrow>
    rhumbMidpointTo this v = Inl (TypeError ''point is not LatLon object'')"
  by (auto dest!: not_LatLon_cases simp add: rhumbMidpointTo_def)

lemma crossingParallels_engine_errors:
  "crossingParallels VNull w l = Inl (TypeError [])"
  "crossingParallels VUndefined w l = Inl (TypeError [])"
  "crossingParallels (VNumber n) w l = Inl (TypeError [])"
  "crossingParallels (VObject None b) w l = Inl (TypeError [])"
  by (simp_all add: crossingParallels_def bind_def)

lemma floor_3_2: "\<lfloor>3 / 2 :: real\<rfloor> = 1"
  by (rule floor_unique) simp_all

text \<open>
  C2. \<open>LatLon.crossingParallels\<close> has no guard. Given two plain objects
  \<open>{lat: 0, lon: 0}\<close> and \<open>{lat: 90, lon: 0}\<close>, which are not \<open>LatLon\<close> instances, and
  latitude 0, it throws nothing and returns \<open>{lon1: 0, lon2: -180}\<close>.
\<close>

theorem crossingParallels_accepts_non_LatLon:
  "\<not> instanceof_LatLon (VObject (Some (Fin 0)) (Some (Fin 0)))
   \<and> \<not> instanceof_LatLon (VObject (Some (Fin 90)) (Some (Fin 0)))
   \<and> crossingParallels (VObject (Some (Fin 0)) (Some (Fin 0)))
        (VObject (Some (Fin 90)) (Some (Fin 0))) (Fin 0)
      = Inr (Some \<lparr>lon1 = Fin 0, lon2 = Fin (- 180)\<rparr>)"
  by (simp add: instanceof_LatLon_def crossingParallels_def bind_def toRadians_Fin
      toDegrees_Fin num_ops Let_def atan2_def Math_PI_def trunc_def floor_3_2)


section \<open>Rhumb lines: the stretch factor \<open>q\<close>\<close>

lemma le_not_gt: "(a::num) \<le> b \<Longrightarrow> \<not> b < a"
  by (cases a; cases b) (auto simp add: less_eq_num_def less_num_def)

lemma rhumbDistanceTo_unfold:
  "rhumbDistanceTo this (VLatLon p) radius =
     (let dphi = rhumbDistanceTo_dphi this p;
          dlam = rhumbDistanceTo_dlam this p;
          q = rhumbDistanceTo_q this p
      in Inr (Math_sqrt (dphi * dphi + q * q * dlam * dlam) * radius_or_default radius))"
  by (simp add: rhumbDistanceTo_def rhumbDistanceTo_dphi_def rhumbDistanceTo_dlam_def
      rhumbDistanceTo_q_def rhumbDistanceTo_dpsi_def Let_def)

lemma rhumbDestinationPoint_unfold:
  "rhumbDestinationPoint this distance bearing radius =
     (let delta = rhumbDestinationPoint_delta distance radius;
          phi2 = rhumbDestinationPoint_phi2 this distance bearing radius;
          q = rhumbDestinationPoint_q this distance bearing radius;
          lam2 = toRadians (lon this) + delta * Math_sin (toRadians bearing) / q
      in \<lparr>lat = toDegrees phi2, lon = rem (toDegrees lam2 + Fin 540) (Fin 360) - Fin 180\<rparr>)"
  by (simp add: rhumbDestinationPoint_def rhumbDestinationPoint_q_def
      rhumbDestinationPoint_dpsi_def rhumbDestinationPoint_phi2_def
      rhumbDestinationPoint_dphi_def rhumbDestinationPoint_delta_def Let_def)

text \<open>
  C6. In \<open>rhumbDistanceTo\<close> and in \<open>rhumbDestinationPoint\<close> the stretch factor \<open>q\<close> is
  \<open>\<Delta>\<phi>/\<Delta>\<psi>\<close> whenever \<open>|\<Delta>\<psi>| > 1e-11\<close> and \<open>cos \<phi>1\<close> whenever \<open>|\<Delta>\<psi>| \<le> 1e-11\<close>, so the
  division is not performed with a denominator of magnitude at most \<open>1e-11\<close>; and this
  \<open>q\<close> is the one that enters the distance, respectively the longitude, returned.
\<close>

theorem rhumb_stretch_factor_guarded:
  "(Math_abs (rhumbDistanceTo_dpsi this p) > Fin (1 / 10 ^ 11) \<longrightarrow>
      rhumbDistanceTo_q this p = rhumbDistanceTo_dphi this p / rhumbDistanceTo_dpsi this p)
   \<and> (Math_abs (rhumbDistanceTo_dpsi this p) \<le> Fin (1 / 10 ^ 11) \<longrightarrow>
      rhumbDistanceTo_q this p = Math_cos (toRadians (lat this)))
   \<and> rhumbDistanceTo this (VLatLon p) radius =
       Inr (Math_sqrt (rhumbDistanceTo_dphi this p * rhumbDistanceTo_dphi this p
                       + rhumbDistanceTo_q this p * rhumbDistanceTo_q this p
                         * rhumbDistanceTo_dlam this p * rhumbDistanceTo_dlam this p)
            * radius_or_default radius)
   \<and> (Math_abs (rhumbDestinationPoint_dpsi this d b r) > Fin (1 / 10 ^ 11) \<longrightarrow>
      rhumbDestinationPoint_q this d b r
        = rhumbDestinationPoint_dphi d b r / rhumbDestinationPoint_dpsi this d b r)
   \<and> (Math_abs (rhumbDestinationPoint_dpsi this d b r) \<le> Fin (1 / 10 ^ 11) \<longrightarrow>
      rhumbDestinationPoint_q this d b r = Math_cos (toRadians (lat this)))
   \<and> lon (rhumbDestinationPoint this d b r) =
       rem (toDegrees (toRadians (lon this)
              + rhumbDestinationPoint_delta d r * Math_sin (toRadians b)
                / rhumbDestinationPoint_q this d b r) + Fin 540) (Fin 360) - Fin 180"
proof -
  have q1: "Math_abs (rhumbDistanceTo_dpsi this p) > Fin (1 / 10 ^ 11) \<longrightarrow>
      rhumbDistanceTo_q this p = rhumbDistanceTo_dphi this p / rhumbDistanceTo_dpsi this p"
    by (simp add: rhumbDistanceTo_q_def Let_def)
  have q2: "Math_abs (rhumbDistanceTo_dpsi this p) \<le> Fin (1 / 10 ^ 11) \<longrightarrow>
      rhumbDistanceTo_q this p = Math_cos (toRadians (lat this))"
    by (auto simp add: rhumbDistanceTo_q_def Let_def dest: le_not_gt)
  have q3: "Math_abs (rhumbDestinationPoint_dpsi this d b r) > Fin (1 / 10 ^ 11) \<longrightarrow>
      rhumbDestinationPoint_q this d b r
        = rhumbDestinationPoint_dphi d b r / rhumbDestinationPoint_dpsi this d b r"
    by (simp add: rhumbDestinationPoint_q_def Let_def)
  have q4: "Math_abs (rhumbDestinationPoint_dpsi this d b r) \<le> Fin (1 / 10 ^ 11) \<longrightarrow>
      rhumbDestinationPoint_q this d b r = Math_cos (toRadians (lat this))"
    by (auto simp add: rhumbDestinationPoint_q_def Let_def dest: le_not_gt)
  show ?thesis
    using q1 q2 q3 q4
    by (simp add: rhumbDistanceTo_unfold rhumbDestinationPoint_unfold Let_def)
qed

lemma ln_sqrt3: "1 / 10 ^ 11 < ln (sqrt 3)"
proof -
  have "exp 1 \<le> (3::real)" by (rule exp_le)
  then have "1 \<le> ln (3::real)" by (simp add: ln_ge_iff)
  moreover have "ln (sqrt 3) = ln 3 / 2" by (simp add: ln_sqrt)
  ultimately show ?thesis by simp
qed

lemma equator_dpsi:
  "rhumbDistanceTo_dpsi \<lparr>lat = Fin 0, lon = Fin 0\<rparr> \<lparr>lat = Fin 0, lon = Fin 0\<rparr> = Fin 0"
  by (simp add: rhumbDistanceTo_dpsi_def Math_tan_def toRadians_Fin num_ops Let_def Math_PI_def
      sin_45 cos_45)

lemma north30_dpsi:
  "rhumbDistanceTo_dpsi \<lparr>lat = Fin 0, lon = Fin 0\<rparr> \<lparr>lat = Fin 30, lon = Fin 0\<rparr>
   = Fin (ln (sqrt 3))"
  by (simp add: rhumbDistanceTo_dpsi_def Math_tan_def toRadians_Fin num_ops Let_def Math_PI_def
      sin_45 cos_45 sin_60 cos_60)

lemma north30_phi2:
  "rhumbDestinationPoint_phi2 \<lparr>lat = Fin 0, lon = Fin 0\<rparr> (Fin (pi / 6)) (Fin 0) (Some (Fin 1))
   = Fin (pi / 6)"
  by (simp add: rhumbDestinationPoint_phi2_def rhumbDestinationPoint_dphi_def
      rhumbDestinationPoint_delta_def radius_or_default_def toRadians_Fin num_ops Let_def
      Math_PI_def)

lemma north30_dest_dpsi:
  "rhumbDestinationPoint_dpsi \<lparr>lat = Fin 0, lon = Fin 0\<rparr> (Fin (pi / 6)) (Fin 0) (Some (Fin 1))
   = Fin (ln (sqrt 3))"
  by (simp add: rhumbDestinationPoint_dpsi_def north30_phi2 Math_tan_def toRadians_Fin num_ops
      Let_def Math_PI_def sin_45 cos_45 sin_60 cos_60)

lemma stay_phi2:
  "rhumbDestinationPoint_phi2 \<lparr>lat = Fin 0, lon = Fin 0\<rparr> (Fin 0) (Fin 0) (Some (Fin 1)) = Fin 0"
  by (simp add: rhumbDestinationPoint_phi2_def rhumbDestinationPoint_dphi_def
      rhumbDestinationPoint_delta_def radius_or_default_def toRadians_Fin num_ops Let_def
      Math_PI_def)

lemma stay_dest_dpsi:
  "rhumbDestinationPoint_dpsi \<lparr>lat = Fin 0, lon = Fin 0\<rparr> (Fin 0) (Fin 0) (Some (Fin 1)) = Fin 0"
  by (simp add: rhumbDestinationPoint_dpsi_def stay_phi2 Math_tan_def toRadians_Fin num_ops
      Let_def Math_PI_def sin_45 cos_45)

text \<open>
  Both branches at concrete inputs: from (0\<degree>, 0\<degree>) due north to latitude 30\<degree>, where
  \<open>\<Delta>\<psi> = ln \<surd>3\<close> and \<open>q = (\<pi>/6) / ln \<surd>3\<close>; and from (0\<degree>, 0\<degree>) to itself, where
  \<open>\<Delta>\<psi> = 0\<close> and \<open>q = cos 0 = 1\<close>.
\<close>

theorem rhumb_stretch_factor_guarded_witness:
  "Math_abs (rhumbDistanceTo_dpsi \<lparr>lat = Fin 0, lon = Fin 0\<rparr> \<lparr>lat = Fin 30, lon = Fin 0\<rparr>)
     > Fin (1 / 10 ^ 11)
   \<and> rhumbDistanceTo_q \<lparr>lat = Fin 0, lon = Fin 0\<rparr> \<lparr>lat = Fin 30, lon = Fin 0\<rparr>
     = Fin (pi / 6) / Fin (ln (sqrt 3))
   \<and> Math_abs (rhumbDistanceTo_dpsi \<lparr>lat = Fin 0, lon = Fin 0\<rparr> \<lparr>lat = Fin 0, lon = Fin 0\<rparr>)
     \<le> Fin (1 / 10 ^ 11)
   \<and> rhumbDistanceTo_q \<lparr>lat = Fin 0, lon = Fin 0\<rparr> \<lparr>lat = Fin 0, lon = Fin 0\<rparr> = Fin 1
   \<and> Math_abs (rhumbDestinationPoint_dpsi \<lparr>lat = Fin 0, lon = Fin 0\<rparr> (Fin (pi / 6)) (Fin 0)
        (Some (Fin 1))) > Fin (1 / 10 ^ 11)
   \<and> rhumbDestinationPoint_q \<lparr>lat = Fin 0, lon = Fin 0\<rparr> (Fin (pi / 6)) (Fin 0) (Some (Fin 1))
     = Fin (pi / 6) / Fin (ln (sqrt 3))
   \<and> Math_abs (rhumbDestinationPoint_dpsi \<lparr>lat = Fin 0, lon = Fin 0\<rparr> (Fin 0) (Fin 0)
        (Some (Fin 1))) \<le> Fin (1 / 10 ^ 11)
   \<and> rhumbDestinationPoint_q \<lparr>lat = Fin 0, lon = Fin 0\<rparr> (Fin 0) (Fin 0) (Some (Fin 1)) = Fin 1"
proof -
  have "(0::real) < 1 / 10 ^ 11" by simp
  then have pos: "0 < ln (sqrt 3)" using ln_sqrt3 by linarith
  have a: "Math_abs (Fin (ln (sqrt 3))) > Fin (1 / 10 ^ 11)"
    using ln_sqrt3 pos by (simp add: num_ops)
  have b: "Math_abs (Fin 0) \<le> Fin (1 / 10 ^ 11)"
    by (simp add: less_eq_num_def)
  have dphi1: "rhumbDistanceTo_dphi \<lparr>lat = Fin 0, lon = Fin 0\<rparr> \<lparr>lat = Fin 30, lon = Fin 0\<rparr>
               = Fin (pi / 6)"
    by (simp add: rhumbDistanceTo_dphi_def toRadians_Fin num_ops)
  have dphi2: "rhumbDestinationPoint_dphi (Fin (pi / 6)) (Fin 0) (Some (Fin 1)) = Fin (pi / 6)"
    by (simp add: rhumbDestinationPoint_dphi_def rhumbDestinationPoint_delta_def
        radius_or_default_def toRadians_Fin num_ops)
  show ?thesis
    using rhumb_stretch_factor_guarded [of "\<lparr>lat = Fin 0, lon = Fin 0\<rparr>"
            "\<lparr>lat = Fin 30, lon = Fin 0\<rparr>" None "Fin (pi / 6)" "Fin 0" "Some (Fin 1)"]
          rhumb_stretch_factor_guarded [of "\<lparr>lat = Fin 0, lon = Fin 0\<rparr>"
            "\<lparr>lat = Fin 0, lon = Fin 0\<rparr>" None "Fin 0" "Fin 0" "Some (Fin 1)"]
          a b
    by (simp add: equator_dpsi north30_dpsi stay_dest_dpsi north30_dest_dpsi dphi1 dphi2
        toRadians_Fin)
qed

section \<open>Rhumb lines: a destination past the pole\<close>

lemma reflect_code:
  "reflect x = (if \<bar>x\<bar> > pi / 2 then (if x > 0 then pi - x else - pi - x) else x)"
proof (cases "x = 0")
  case True
  then show ?thesis by (simp add: reflect_def)
next
  case False
  then show ?thesis by (simp add: reflect_def sgn_if)
qed

lemma rhumbDestinationPoint_lat:
  "lat (rhumbDestinationPoint this distance bearing radius)
   = toDegrees (rhumbDestinationPoint_phi2 this distance bearing radius)"
  by (simp add: rhumbDestinationPoint_unfold Let_def)

lemma rhumbDestinationPoint_phi2_Fin:
  assumes "r \<noteq> 0"
  shows "rhumbDestinationPoint_phi2 \<lparr>lat = Fin la, lon = lo\<rparr> (Fin d) (Fin th) (Some (Fin r))
         = Fin (reflect (la * pi / 180 + d / r * cos (th * pi / 180)))"
  using assms
  by (simp add: rhumbDestinationPoint_phi2_def rhumbDestinationPoint_dphi_def
      rhumbDestinationPoint_delta_def radius_or_default_def toRadians_Fin num_ops Math_PI_def
      Let_def reflect_code)

lemma reflect_range:
  assumes "\<bar>x\<bar> \<le> 3 * pi / 2"
  shows "\<bar>reflect x\<bar> \<le> pi / 2"
  using assms by (auto simp add: reflect_code abs_if split: if_splits)

lemma degrees_range:
  fixes y :: real
  assumes "\<bar>y\<bar> \<le> pi / 2"
  shows "- 90 \<le> y * 180 / pi \<and> y * 180 / pi \<le> 90"
proof -
  have lo: "- (pi / 2) \<le> y" and hi: "y \<le> pi / 2"
    using assms by (simp_all add: abs_le_iff)
  have "- 90 \<le> y * 180 / pi"
    using lo pi_gt_zero by (simp add: field_simps)
  moreover have "y * 180 / pi \<le> 90"
    using hi pi_gt_zero by (simp add: field_simps)
  ultimately show ?thesis by simp
qed

text \<open>
  C7. For a start point of finite latitude \<open>la\<close> (degrees), a finite distance \<open>d\<close>, a finite
  bearing \<open>th\<close> (degrees) and a radius \<open>r > 0\<close>, the latitude returned by
  \<open>rhumbDestinationPoint\<close> is the projected latitude \<open>\<phi>1 + (d/r)\<cdot>cos \<theta>\<close>, reflected by
  \<open>\<phi>2 = sign(\<phi>2)\<cdot>\<pi> - \<phi>2\<close> when it exceeds \<open>\<pi>/2\<close> in magnitude, in degrees; no error is
  raised; and when the projected latitude is at most \<open>3\<pi>/2\<close> in magnitude the returned
  latitude lies in \<open>[-90, 90]\<close>.
\<close>

theorem rhumbDestinationPoint_latitude_reflected:
  assumes "0 < r" and "\<bar>la * pi / 180 + d / r * cos (th * pi / 180)\<bar> \<le> 3 * pi / 2"
  shows "\<exists>m. lat (rhumbDestinationPoint \<lparr>lat = Fin la, lon = lo\<rparr> (Fin d) (Fin th)
                  (Some (Fin r))) = Fin m
           \<and> m = reflect (la * pi / 180 + d / r * cos (th * pi / 180)) * 180 / pi
           \<and> - 90 \<le> m \<and> m \<le> 90"
proof -
  let ?x = "la * pi / 180 + d / r * cos (th * pi / 180)"
  have r: "r \<noteq> 0" using assms(1) by simp
  have e: "lat (rhumbDestinationPoint \<lparr>lat = Fin la, lon = lo\<rparr> (Fin d) (Fin th)
                 (Some (Fin r))) = Fin (reflect ?x * 180 / pi)"
    by (simp only: rhumbDestinationPoint_lat rhumbDestinationPoint_phi2_Fin [OF r]
        toDegrees_Fin)
  have b: "\<bar>reflect ?x\<bar> \<le> pi / 2" by (rule reflect_range [OF assms(2)])
  show ?thesis using e degrees_range [OF b] by blast
qed

text \<open>
  From 60\<degree>N due north by a quarter of a great circle (\<open>d/r = \<pi>/2\<close>): the projected latitude
  is 150\<degree>, the returned latitude 30\<degree>.
\<close>

theorem rhumbDestinationPoint_latitude_reflected_witness:
  "(0::real) < 2 \<and> \<bar>60 * pi / 180 + pi / 2 * cos (0 * pi / 180)\<bar> \<le> 3 * pi / 2
   \<and> lat (rhumbDestinationPoint \<lparr>lat = Fin 60, lon = Fin 0\<rparr> (Fin pi) (Fin 0) (Some (Fin 2)))
     = Fin 30"
proof -
  have h1: "(0::real) < 2" by simp
  have h2: "\<bar>60 * pi / 180 + pi / 2 * cos (0 * pi / 180)\<bar> \<le> 3 * pi / 2" by simp
  have v: "reflect (60 * pi / 180 + pi / 2 * cos (0 * pi / 180)) * 180 / pi = 30"
    by (simp add: reflect_code)
  show ?thesis
    using rhumbDestinationPoint_latitude_reflected [OF h1 h2, of "Fin 0"] h2 v by auto
qed


section \<open>Normalisation of the longitude\<close>

lemma rem_360_range:
  assumes "0 \<le> x"
  shows "0 \<le> x - 360 * of_int (trunc (x / 360)) \<and> x - 360 * of_int (trunc (x / 360)) < 360"
proof -
  have t: "trunc (x / 360) = \<lfloor>x / 360\<rfloor>" using assms by (simp add: trunc_def)
  have "of_int \<lfloor>x / 360\<rfloor> \<le> x / 360" by (rule of_int_floor_le)
  then have a: "360 * of_int \<lfloor>x / 360\<rfloor> \<le> x" by linarith
  have "x / 360 < of_int \<lfloor>x / 360\<rfloor> + 1" by linarith
  then have b: "x < 360 * of_int \<lfloor>x / 360\<rfloor> + 360" by linarith
  show ?thesis unfolding t using a b by simp
qed

lemma normalise_range:
  assumes "normalisable lam"
  shows "in_normal_range (normalise lam)"
proof -
  from assms obtain r where r: "toDegrees lam = Fin r" and b: "- 540 \<le> r"
    by (auto simp add: normalisable_def split: num.splits)
  have "0 \<le> r + 540" using b by simp
  from rem_360_range [OF this] show ?thesis
    by (simp add: normalise_def r num_ops in_normal_range_def)
qed

lemma midpointTo_lon:
  "\<exists>res. midpointTo this (VLatLon p) = Inr res \<and> lon res = normalise (midpointTo_lam3 this p)"
  by (simp add: midpointTo_def midpointTo_lam3_def normalise_def Let_def)

lemma intermediatePointTo_lon:
  "\<exists>res. intermediatePointTo this (VLatLon p) f = Inr res
         \<and> lon res = normalise (intermediatePointTo_lam3 this p f)"
  by (simp add: intermediatePointTo_weights intermediatePointTo_lam3_def normalise_def Let_def)

lemma destinationPoint_lon:
  "lon (destinationPoint this d b r) = normalise (destinationPoint_lam2 this d b r)"
  by (simp add: destinationPoint_def destinationPoint_lam2_def normalise_def Let_def)

lemma intersection_lon:
  "intersection (VLatLon q1) b1 (VLatLon q2) b2 = Inr (Some res) \<Longrightarrow>
   lon res = normalise (intersection_lam3 q1 b1 q2 b2)"
  by (auto simp add: intersection_unfold intersection_lam3_def normalise_def Let_def
      split: if_splits)

lemma crossingParallels_lons:
  "crossingParallels (VLatLon c1) (VLatLon c2) l = Inr (Some c) \<Longrightarrow>
   lon1 c = normalise (crossingParallels_lami1 c1 c2 l)
   \<and> lon2 c = normalise (crossingParallels_lami2 c1 c2 l)"
  by (auto simp add: crossingParallels_def crossingParallels_lami1_def
      crossingParallels_lami2_def bind_def normalise_def Let_def split: if_splits)

lemma rhumbDestinationPoint_lon:
  "lon (rhumbDestinationPoint this d b r) = normalise (rhumbDestinationPoint_lam2 this d b r)"
  by (simp add: rhumbDestinationPoint_unfold rhumbDestinationPoint_lam2_def normalise_def
      Let_def)

lemma rhumbMidpointTo_lon:
  "\<exists>res. rhumbMidpointTo this (VLatLon p) = Inr res
         \<and> lon res = normalise (rhumbMidpointTo_lam3 this p)"
  by (simp add: rhumbMidpointTo_def rhumbMidpointTo_lam3_def normalise_def Let_def)

subsection \<open>The operations at concrete inputs\<close>

text \<open>
  From (0\<degree>N, 0\<degree>E): to (0\<degree>N, 90\<degree>E) for the midpoints, the interpolation and the
  intersection of the two paths due north (which meet at the pole); to the pole for the
  crossing of the equator; and a journey of length 0 for the destinations.
\<close>

lemma arctan_1: "arctan 1 = pi / 4"
  using arctan_one by simp

lemma floor_5_4: "\<lfloor>5 / 4 :: real\<rfloor> = 1"
  by (rule floor_unique) simp_all

lemma floor_1_4: "\<lfloor>1 / 4 :: real\<rfloor> = 0"
  by (rule floor_unique) simp_all

lemma eval_midpointTo_lam3:
  "midpointTo_lam3 \<lparr>lat = Fin 0, lon = Fin 0\<rparr> \<lparr>lat = Fin 0, lon = Fin 90\<rparr> = Fin (pi / 4)"
  by (simp add: midpointTo_lam3_def toRadians_Fin num_ops Let_def atan2_def arctan_1)

lemma eval_intermediatePointTo_delta:
  "intermediatePointTo_delta \<lparr>lat = Fin 0, lon = Fin 0\<rparr> \<lparr>lat = Fin 0, lon = Fin 90\<rparr> = Fin (pi / 2)"
  by (simp add: intermediatePointTo_delta_def toRadians_Fin num_ops Let_def atan2_def arctan_1
      sin_45)

lemma eval_intermediatePointTo_lam3:
  "intermediatePointTo_lam3 \<lparr>lat = Fin 0, lon = Fin 0\<rparr> \<lparr>lat = Fin 0, lon = Fin 90\<rparr> (Fin 0) = Fin 0"
  by (simp add: intermediatePointTo_lam3_def intermediatePointTo_A_def
      intermediatePointTo_B_def eval_intermediatePointTo_delta toRadians_Fin num_ops Let_def
      atan2_def)

lemma eval_destinationPoint_lam2:
  "destinationPoint_lam2 \<lparr>lat = Fin 0, lon = Fin 0\<rparr> (Fin 0) (Fin 0) None = Fin 0"
  by (simp add: destinationPoint_lam2_def radius_or_default_def toRadians_Fin num_ops Let_def
      atan2_def)

lemma eval_intersection_delta12:
  "intersection_delta12 \<lparr>lat = Fin 0, lon = Fin 0\<rparr> \<lparr>lat = Fin 0, lon = Fin 90\<rparr> = Fin (pi / 2)"
  by (simp add: intersection_delta12_def toRadians_Fin num_ops Let_def sin_45 arcsin_sqrt_half
      sqrt_half_ge)

lemma eval_intersection_thetaa:
  "intersection_thetaa \<lparr>lat = Fin 0, lon = Fin 0\<rparr> \<lparr>lat = Fin 0, lon = Fin 90\<rparr> = Fin (pi / 2)"
  by (simp add: intersection_thetaa_def intersection_thetaa0_def eval_intersection_delta12
      isNaN_def toRadians_Fin num_ops Let_def)

lemma eval_intersection_thetab:
  "intersection_thetab \<lparr>lat = Fin 0, lon = Fin 0\<rparr> \<lparr>lat = Fin 0, lon = Fin 90\<rparr> = Fin (pi / 2)"
  by (simp add: intersection_thetab_def eval_intersection_delta12 toRadians_Fin num_ops Let_def)

lemma eval_intersection_alpha1:
  "intersection_alpha1 \<lparr>lat = Fin 0, lon = Fin 0\<rparr> (Fin 0) \<lparr>lat = Fin 0, lon = Fin 90\<rparr>
   = Fin (- (pi / 2))"
  by (simp add: intersection_alpha1_def eval_intersection_thetaa toRadians_Fin num_ops Let_def
      Math_PI_def trunc_def floor_1_4)

lemma eval_intersection_alpha2:
  "intersection_alpha2 \<lparr>lat = Fin 0, lon = Fin 0\<rparr> \<lparr>lat = Fin 0, lon = Fin 90\<rparr> (Fin 0)
   = Fin (- (pi / 2))"
  by (simp add: intersection_alpha2_def eval_intersection_thetab toRadians_Fin num_ops Let_def
      Math_PI_def trunc_def floor_5_4)

lemma eval_intersection_lam3:
  "intersection_lam3 \<lparr>lat = Fin 0, lon = Fin 0\<rparr> (Fin 0) \<lparr>lat = Fin 0, lon = Fin 90\<rparr> (Fin 0) = Fin 0"
  by (simp add: intersection_lam3_def eval_intersection_delta12 eval_intersection_alpha1
      eval_intersection_alpha2 toRadians_Fin num_ops Let_def atan2_def)

lemma eval_intersection:
  "intersection (VLatLon \<lparr>lat = Fin 0, lon = Fin 0\<rparr>) (Fin 0)
     (VLatLon \<lparr>lat = Fin 0, lon = Fin 90\<rparr>) (Fin 0)
  = Inr (Some \<lparr>lat = Fin 90, lon = Fin 0\<rparr>)"
  by (simp add: intersection_unfold eval_intersection_delta12 eval_intersection_alpha1
      eval_intersection_alpha2 toRadians_Fin toDegrees_Fin num_ops num_eq_def Let_def atan2_def
      trunc_def floor_3_2)

lemma eval_crossingParallels_lami1:
  "crossingParallels_lami1 \<lparr>lat = Fin 0, lon = Fin 0\<rparr> \<lparr>lat = Fin 90, lon = Fin 0\<rparr> (Fin 0) = Fin 0"
  by (simp add: crossingParallels_lami1_def toRadians_Fin num_ops Let_def atan2_def)

lemma eval_crossingParallels_lami2:
  "crossingParallels_lami2 \<lparr>lat = Fin 0, lon = Fin 0\<rparr> \<lparr>lat = Fin 90, lon = Fin 0\<rparr> (Fin 0) = Fin pi"
  by (simp add: crossingParallels_lami2_def toRadians_Fin num_ops Let_def atan2_def)

lemma eval_crossingParallels:
  "crossingParallels (VLatLon \<lparr>lat = Fin 0, lon = Fin 0\<rparr>)
     (VLatLon \<lparr>lat = Fin 90, lon = Fin 0\<rparr>) (Fin 0)
   = Inr (Some \<lparr>lon1 = Fin 0, lon2 = Fin (- 180)\<rparr>)"
  by (simp add: crossingParallels_def bind_def toRadians_Fin
      toDegrees_Fin num_ops Let_def atan2_def Math_PI_def trunc_def floor_3_2)

lemma eval_rhumbDestinationPoint_lam2:
  "rhumbDestinationPoint_lam2 \<lparr>lat = Fin 0, lon = Fin 0\<rparr> (Fin 0) (Fin 0) None = Fin 0"
  by (simp add: rhumbDestinationPoint_lam2_def rhumbDestinationPoint_q_def
      rhumbDestinationPoint_dpsi_def rhumbDestinationPoint_phi2_def
      rhumbDestinationPoint_dphi_def rhumbDestinationPoint_delta_def Math_tan_def Math_PI_def
      radius_or_default_def toRadians_Fin num_ops Let_def sin_45 cos_45)

lemma eval_rhumbMidpointTo_lam3:
  "rhumbMidpointTo_lam3 \<lparr>lat = Fin 0, lon = Fin 0\<rparr> \<lparr>lat = Fin 0, lon = Fin 90\<rparr> = Fin (pi / 4)"
  by (simp add: rhumbMidpointTo_lam3_def Math_tan_def Math_PI_def isFinite_def toRadians_Fin
      num_ops Let_def sin_45 cos_45)

text \<open>
  C1 as the code has it. Each operation that computes a longitude ends with
  \<open>(\<lambda>.toDegrees()+540)%360-180\<close>. Whenever the longitude before normalisation is a finite
  number of at least \<open>-540\<close> degrees, the longitude returned lies in \<open>[-180, 180)\<close>: for
  \<open>midpointTo\<close>, \<open>intermediatePointTo\<close>, \<open>destinationPoint\<close>, \<open>intersection\<close> (when it
  returns a point), \<open>crossingParallels\<close> (both longitudes, when it returns a pair),
  \<open>rhumbDestinationPoint\<close> and \<open>rhumbMidpointTo\<close>.
\<close>

theorem longitude_normalised:
  "(normalisable (midpointTo_lam3 this p) \<longrightarrow>
      (\<exists>res. midpointTo this (VLatLon p) = Inr res \<and> in_normal_range (lon res)))
   \<and> (normalisable (intermediatePointTo_lam3 this p f) \<longrightarrow>
      (\<exists>res. intermediatePointTo this (VLatLon p) f = Inr res \<and> in_normal_range (lon res)))
   \<and> (normalisable (destinationPoint_lam2 this d b r) \<longrightarrow>
      in_normal_range (lon (destinationPoint this d b r)))
   \<and> (\<forall>res. intersection (VLatLon q1) b1 (VLatLon q2) b2 = Inr (Some res)
         \<and> normalisable (intersection_lam3 q1 b1 q2 b2) \<longrightarrow>
      in_normal_range (lon res))
   \<and> (\<forall>c. crossingParallels (VLatLon c1) (VLatLon c2) l = Inr (Some c) \<longrightarrow>
      (normalisable (crossingParallels_lami1 c1 c2 l) \<longrightarrow> in_normal_range (lon1 c))
      \<and> (normalisable (crossingParallels_lami2 c1 c2 l) \<longrightarrow> in_normal_range (lon2 c)))
   \<and> (normalisable (rhumbDestinationPoint_lam2 this d b r) \<longrightarrow>
      in_normal_range (lon (rhumbDestinationPoint this d b r)))
   \<and> (normalisable (rhumbMidpointTo_lam3 this p) \<longrightarrow>
      (\<exists>res. rhumbMidpointTo this (VLatLon p) = Inr res \<and> in_normal_range (lon res)))"
proof -
  have c1: "normalisable (midpointTo_lam3 this p) \<longrightarrow>
      (\<exists>res. midpointTo this (VLatLon p) = Inr res \<and> in_normal_range (lon res))"
    using midpointTo_lon [of this p] normalise_range by auto
  have c2: "normalisable (intermediatePointTo_lam3 this p f) \<longrightarrow>
      (\<exists>res. intermediatePointTo this (VLatLon p) f = Inr res \<and> in_normal_range (lon res))"
    using intermediatePointTo_lon [of this p f] normalise_range by auto
  have c3: "normalisable (destinationPoint_lam2 this d b r) \<longrightarrow>
      in_normal_range (lon (destinationPoint this d b r))"
    by (simp add: destinationPoint_lon normalise_range)
  have c4: "\<forall>res. intersection (VLatLon q1) b1 (VLatLon q2) b2 = Inr (Some res)
         \<and> normalisable (intersection_lam3 q1 b1 q2 b2) \<longrightarrow> in_normal_range (lon res)"
    using intersection_lon normalise_range by auto
  have c5: "\<forall>c. crossingParallels (VLatLon c1) (VLatLon c2) l = Inr (Some c) \<longrightarrow>
      (normalisable (crossingParallels_lami1 c1 c2 l) \<longrightarrow> in_normal_range (lon1 c))
      \<and> (normalisable (crossingParallels_lami2 c1 c2 l) \<longrightarrow> in_normal_range (lon2 c))"
    using crossingParallels_lons normalise_range by auto
  have c6: "normalisable (rhumbDestinationPoint_lam2 this d b r) \<longrightarrow>
      in_normal_range (lon (rhumbDestinationPoint this d b r))"
    by (simp add: rhumbDestinationPoint_lon normalise_range)
  have c7: "normalisable (rhumbMidpointTo_lam3 this p) \<longrightarrow>
      (\<exists>res. rhumbMidpointTo this (VLatLon p) = Inr res \<and> in_normal_range (lon res))"
    using rhumbMidpointTo_lon [of this p] normalise_range by auto
  show ?thesis using c1 c2 c3 c4 c5 c6 c7 by blast
qed

lemma normalisable_Fin: "normalisable (Fin x) = (- 540 \<le> x * 180 / pi)"
  by (simp add: normalisable_def toDegrees_Fin)

theorem longitude_normalised_witness:
  "normalisable (midpointTo_lam3 \<lparr>lat = Fin 0, lon = Fin 0\<rparr> \<lparr>lat = Fin 0, lon = Fin 90\<rparr>)
   \<and> (\<exists>res. midpointTo \<lparr>lat = Fin 0, lon = Fin 0\<rparr> (VLatLon \<lparr>lat = Fin 0, lon = Fin 90\<rparr>)
              = Inr res \<and> in_normal_range (lon res))
   \<and> normalisable (intermediatePointTo_lam3 \<lparr>lat = Fin 0, lon = Fin 0\<rparr>
        \<lparr>lat = Fin 0, lon = Fin 90\<rparr> (Fin 0))
   \<and> (\<exists>res. intermediatePointTo \<lparr>lat = Fin 0, lon = Fin 0\<rparr>
               (VLatLon \<lparr>lat = Fin 0, lon = Fin 90\<rparr>) (Fin 0) = Inr res
             \<and> in_normal_range (lon res))
   \<and> normalisable (destinationPoint_lam2 \<lparr>lat = Fin 0, lon = Fin 0\<rparr> (Fin 0) (Fin 0) None)
   \<and> in_normal_range (lon (destinationPoint \<lparr>lat = Fin 0, lon = Fin 0\<rparr> (Fin 0) (Fin 0) None))
   \<and> normalisable (intersection_lam3 \<lparr>lat = Fin 0, lon = Fin 0\<rparr> (Fin 0)
        \<lparr>lat = Fin 0, lon = Fin 90\<rparr> (Fin 0))
   \<and> intersection (VLatLon \<lparr>lat = Fin 0, lon = Fin 0\<rparr>) (Fin 0)
        (VLatLon \<lparr>lat = Fin 0, lon = Fin 90\<rparr>) (Fin 0)
      = Inr (Some \<lparr>lat = Fin 90, lon = Fin 0\<rparr>)
   \<and> in_normal_range (lon \<lparr>lat = Fin 90, lon = Fin 0\<rparr>)
   \<and> normalisable (crossingParallels_lami1 \<lparr>lat = Fin 0, lon = Fin 0\<rparr>
        \<lparr>lat = Fin 90, lon = Fin 0\<rparr> (Fin 0))
   \<and> normalisable (crossingParallels_lami2 \<lparr>lat = Fin 0, lon = Fin 0\<rparr>
        \<lparr>lat = Fin 90, lon = Fin 0\<rparr> (Fin 0))
   \<and> crossingParallels (VLatLon \<lparr>lat = Fin 0, lon = Fin 0\<rparr>)
        (VLatLon \<lparr>lat = Fin 90, lon = Fin 0\<rparr>) (Fin 0)
      = Inr (Some \<lparr>lon1 = Fin 0, lon2 = Fin (- 180)\<rparr>)
   \<and> in_normal_range (lon1 \<lparr>lon1 = Fin 0, lon2 = Fin (- 180)\<rparr>)
   \<and> in_normal_range (lon2 \<lparr>lon1 = Fin 0, lon2 = Fin (- 180)\<rparr>)
   \<and> normalisable (rhumbDestinationPoint_lam2 \<lparr>lat = Fin 0, lon = Fin 0\<rparr> (Fin 0) (Fin 0) None)
   \<and> in_normal_range (lon (rhumbDestinationPoint \<lparr>lat = Fin 0, lon = Fin 0\<rparr> (Fin 0) (Fin 0)
        None))
   \<and> normalisable (rhumbMidpointTo_lam3 \<lparr>lat = Fin 0, lon = Fin 0\<rparr> \<lparr>lat = Fin 0, lon = Fin 90\<rparr>)
   \<and> (\<exists>res. rhumbMidpointTo \<lparr>lat = Fin 0, lon = Fin 0\<rparr> (VLatLon \<lparr>lat = Fin 0, lon = Fin 90\<rparr>)
              = Inr res \<and> in_normal_range (lon res))"
proof -
  have n: "normalisable (Fin 0)" "normalisable (Fin (pi / 4))" "normalisable (Fin pi)"
    by (simp_all add: normalisable_Fin)
  show ?thesis
    using longitude_normalised [where this = "\<lparr>lat = Fin 0, lon = Fin 0\<rparr>"
        and p = "\<lparr>lat = Fin 0, lon = Fin 90\<rparr>" and f = "Fin 0" and d = "Fin 0" and b = "Fin 0"
        and r = None and ?q1.0 = "\<lparr>lat = Fin 0, lon = Fin 0\<rparr>" and ?b1.0 = "Fin 0"
        and ?q2.0 = "\<lparr>lat = Fin 0, lon = Fin 90\<rparr>" and ?b2.0 = "Fin 0"
        and ?c1.0 = "\<lparr>lat = Fin 0, lon = Fin 0\<rparr>" and ?c2.0 = "\<lparr>lat = Fin 90, lon = Fin 0\<rparr>"
        and l = "Fin 0"] n
    by (simp add: eval_midpointTo_lam3 eval_intermediatePointTo_lam3 eval_destinationPoint_lam2
        eval_intersection_lam3 eval_intersection eval_crossingParallels_lami1
        eval_crossingParallels_lami2 eval_crossingParallels eval_rhumbDestinationPoint_lam2
        eval_rhumbMidpointTo_lam3)
qed

text \<open>
  C1 as stated fails at the western end of the interval: the destination at distance 0
  from (0\<degree>N, 180\<degree>W) has longitude \<open>-180\<close>, which is not in \<open>(-180, 180]\<close>.
\<close>

theorem longitude_minus_180_counterexample:
  "lon (destinationPoint \<lparr>lat = Fin 0, lon = Fin (- 180)\<rparr> (Fin 0) (Fin 0) None) = Fin (- 180)
   \<and> \<not> in_claimed_range
        (lon (destinationPoint \<lparr>lat = Fin 0, lon = Fin (- 180)\<rparr> (Fin 0) (Fin 0) None))"
  by (simp add: destinationPoint_def radius_or_default_def toRadians_Fin toDegrees_Fin num_ops
      Let_def atan2_def trunc_def in_claimed_range_def)

text \<open>
  Below \<open>-540\<close> degrees the remainder is negative (it takes the sign of the dividend) and the
  result leaves the interval altogether: the midpoint of (0\<degree>, -1000\<degree>) and itself.
\<close>

lemma midpointTo_far_west:
  "midpointTo \<lparr>lat = Fin 0, lon = Fin (- 1000)\<rparr> (VLatLon \<lparr>lat = Fin 0, lon = Fin (- 1000)\<rparr>)
   = Inr \<lparr>lat = Fin 0, lon = Fin (- 280)\<rparr>"
  by (simp add: midpointTo_def toRadians_Fin toDegrees_Fin num_ops Let_def atan2_def trunc_def)


section \<open>Crossing a parallel of latitude\<close>

text \<open>The equation \<open>a cos t + b sin t = c\<close> has a solution exactly when \<open>c\<^sup>2 \<le> a\<^sup>2 + b\<^sup>2\<close>.\<close>

lemma lagrange_identity:
  fixes a b s c :: real
  shows "(a * c + b * s)\<^sup>2 + (a * s - b * c)\<^sup>2 = (a\<^sup>2 + b\<^sup>2) * (s\<^sup>2 + c\<^sup>2)"
  by algebra

lemma lin_comb_bound:
  fixes a b t :: real
  shows "(a * cos t + b * sin t)\<^sup>2 \<le> a\<^sup>2 + b\<^sup>2"
proof -
  have "(a * cos t + b * sin t)\<^sup>2 + (a * sin t - b * cos t)\<^sup>2
        = (a\<^sup>2 + b\<^sup>2) * ((sin t)\<^sup>2 + (cos t)\<^sup>2)"
    by (rule lagrange_identity)
  then have "(a * cos t + b * sin t)\<^sup>2 + (a * sin t - b * cos t)\<^sup>2 = a\<^sup>2 + b\<^sup>2" by simp
  moreover have "0 \<le> (a * sin t - b * cos t)\<^sup>2" by simp
  ultimately show ?thesis by linarith
qed

lemma lin_comb_solvable:
  fixes a b c :: real
  assumes "c\<^sup>2 \<le> a\<^sup>2 + b\<^sup>2"
  shows "\<exists>t. a * cos t + b * sin t = c"
proof (cases "a\<^sup>2 + b\<^sup>2 = 0")
  case True
  then have "a = 0" "b = 0" by (simp_all add: sum_power2_eq_zero_iff)
  moreover have "c = 0" using assms True by simp
  ultimately show ?thesis by simp
next
  case False
  obtain r th where r: "a = r * cos th" "b = r * sin th" using polar_Ex by blast
  have r2: "a\<^sup>2 + b\<^sup>2 = r\<^sup>2"
  proof -
    have "a\<^sup>2 + b\<^sup>2 = r\<^sup>2 * ((cos th)\<^sup>2 + (sin th)\<^sup>2)"
      unfolding r by algebra
    then show ?thesis by simp
  qed
  have rn: "r \<noteq> 0" using False r2 by auto
  have "(c / r)\<^sup>2 \<le> 1" using assms r2 rn by (simp add: power_divide)
  then have "\<bar>c / r\<bar> \<le> 1" by (simp add: abs_square_le_1)
  then have k: "- 1 \<le> c / r" "c / r \<le> 1" by linarith+
  let ?t = "th + arccos (c / r)"
  have "a * cos ?t + b * sin ?t = r * cos (?t - th)"
    unfolding r by (simp only: cos_diff) (simp add: algebra_simps)
  also have "\<dots> = r * (c / r)" using k by (simp add: cos_arccos)
  also have "\<dots> = c" using rn by simp
  finally show ?thesis by blast
qed

lemma lin_comb_iff:
  fixes a b c :: real
  shows "(\<exists>t. a * cos t + b * sin t = c) = (c\<^sup>2 \<le> a\<^sup>2 + b\<^sup>2)"
  using lin_comb_bound lin_comb_solvable by metis


lemma cross_identity:
  fixes s1 c1 s2 c2 sl1 cl1 sl2 cl2 cp :: real
  assumes "sl1\<^sup>2 + cl1\<^sup>2 = 1" and "sl2\<^sup>2 + cl2\<^sup>2 = 1"
  shows "(s1 * c2 * cp * (sl2 * cl1 - cl2 * sl1)) * (s1 * c2 * cp * (sl2 * cl1 - cl2 * sl1))
         + (s1 * c2 * cp * (cl2 * cl1 + sl2 * sl1) - c1 * s2 * cp)
           * (s1 * c2 * cp * (cl2 * cl1 + sl2 * sl1) - c1 * s2 * cp)
         = (cp * (c1 * sl1 * s2 - s1 * (c2 * sl2)))\<^sup>2 + (cp * (s1 * (c2 * cl2) - c1 * cl1 * s2))\<^sup>2"
  using assms by algebra

lemma crossing_xy:
  "crossing_x phi1 phi2 phi (lam2 - lam1) * crossing_x phi1 phi2 phi (lam2 - lam1)
   + crossing_y phi1 phi2 phi (lam2 - lam1) * crossing_y phi1 phi2 phi (lam2 - lam1)
   = (cos phi * normal_x phi1 lam1 phi2 lam2)\<^sup>2 + (cos phi * normal_y phi1 lam1 phi2 lam2)\<^sup>2"
  unfolding crossing_x_def crossing_y_def normal_x_def normal_y_def sin_diff cos_diff
  by (rule cross_identity) simp_all

lemma crossing_z_normal:
  "crossing_z phi1 phi2 phi (lam2 - lam1) = normal_z phi1 lam1 phi2 lam2 * sin phi"
  unfolding crossing_z_def normal_z_def sin_diff by (simp add: algebra_simps)

lemma on_great_circle_iff:
  "(\<exists>lam. on_great_circle phi1 lam1 phi2 lam2 phi lam) =
   ((normal_z phi1 lam1 phi2 lam2 * sin phi)\<^sup>2
     \<le> (cos phi * normal_x phi1 lam1 phi2 lam2)\<^sup>2 + (cos phi * normal_y phi1 lam1 phi2 lam2)\<^sup>2)"
proof -
  let ?a = "cos phi * normal_x phi1 lam1 phi2 lam2"
  let ?b = "cos phi * normal_y phi1 lam1 phi2 lam2"
  let ?c = "- (normal_z phi1 lam1 phi2 lam2 * sin phi)"
  have "on_great_circle phi1 lam1 phi2 lam2 phi lam = (?a * cos lam + ?b * sin lam = ?c)" for lam
    unfolding on_great_circle_def by (auto simp add: algebra_simps)
  then have "(\<exists>lam. on_great_circle phi1 lam1 phi2 lam2 phi lam)
             = (\<exists>lam. ?a * cos lam + ?b * sin lam = ?c)"
    by simp
  also have "\<dots> = (?c\<^sup>2 \<le> ?a\<^sup>2 + ?b\<^sup>2)" by (rule lin_comb_iff)
  finally show ?thesis by simp
qed

lemma crossingParallels_test:
  "(crossingParallels (VLatLon \<lparr>lat = Fin la1, lon = Fin lo1\<rparr>)
     (VLatLon \<lparr>lat = Fin la2, lon = Fin lo2\<rparr>) (Fin l) = Inr None)
   = (crossing_z (radians la1) (radians la2) (radians l) (radians lo2 - radians lo1)
       * crossing_z (radians la1) (radians la2) (radians l) (radians lo2 - radians lo1)
      > crossing_x (radians la1) (radians la2) (radians l) (radians lo2 - radians lo1)
        * crossing_x (radians la1) (radians la2) (radians l) (radians lo2 - radians lo1)
      + crossing_y (radians la1) (radians la2) (radians l) (radians lo2 - radians lo1)
        * crossing_y (radians la1) (radians la2) (radians l) (radians lo2 - radians lo1))"
  by (simp add: crossingParallels_def bind_def toRadians_Fin num_ops Let_def crossing_x_def
      crossing_y_def crossing_z_def radians_def)


lemma attains_latitude_iff:
  "attains_latitude la1 lo1 la2 lo2 l =
   ((normal_z (radians la1) (radians lo1) (radians la2) (radians lo2))\<^sup>2 * (sin (radians l))\<^sup>2
     \<le> ((normal_x (radians la1) (radians lo1) (radians la2) (radians lo2))\<^sup>2
        + (normal_y (radians la1) (radians lo1) (radians la2) (radians lo2))\<^sup>2)
       * (cos (radians l))\<^sup>2)"
  unfolding attains_latitude_def on_great_circle_iff
  by (simp add: power_mult_distrib algebra_simps)

lemma crossingParallels_null_iff_attains:
  "(crossingParallels (VLatLon \<lparr>lat = Fin la1, lon = Fin lo1\<rparr>)
     (VLatLon \<lparr>lat = Fin la2, lon = Fin lo2\<rparr>) (Fin l) = Inr None)
   = (\<not> attains_latitude la1 lo1 la2 lo2 l)"
  unfolding crossingParallels_test crossing_xy crossing_z_normal attains_latitude_def
      on_great_circle_iff
  by (simp add: power2_eq_square not_le)

lemma sin_cos_abs:
  "(sin x)\<^sup>2 = (sin \<bar>x\<bar>)\<^sup>2 \<and> (cos x)\<^sup>2 = (cos \<bar>x\<bar>)\<^sup>2" for x :: real
  by (cases "0 \<le> x") (simp_all add: abs_if)

lemma sin_cos_sq_mono:
  fixes p q :: real
  assumes "\<bar>p\<bar> \<le> \<bar>q\<bar>" and "\<bar>q\<bar> \<le> pi / 2"
  shows "(sin p)\<^sup>2 \<le> (sin q)\<^sup>2 \<and> (cos q)\<^sup>2 \<le> (cos p)\<^sup>2"
proof -
  have p0: "0 \<le> \<bar>p\<bar>" and q0: "0 \<le> \<bar>q\<bar>" by simp_all
  have pq: "\<bar>p\<bar> \<le> pi / 2" using assms by linarith
  have ppi: "\<bar>p\<bar> \<le> pi" "\<bar>q\<bar> \<le> pi" using pq assms(2) pi_gt_zero by linarith+
  have mp: "- (pi / 2) \<le> \<bar>p\<bar>" "- (pi / 2) \<le> \<bar>q\<bar>" using p0 q0 pi_gt_zero by linarith+
  have "sin \<bar>p\<bar> \<le> sin \<bar>q\<bar>"
    by (rule sin_monotone_2pi_le [OF mp(1) assms(1) assms(2)])
  moreover have "0 \<le> sin \<bar>p\<bar>"
    by (rule sin_ge_zero [OF p0 ppi(1)])
  ultimately have s: "(sin \<bar>p\<bar>)\<^sup>2 \<le> (sin \<bar>q\<bar>)\<^sup>2" by (rule power_mono)
  have "cos \<bar>q\<bar> \<le> cos \<bar>p\<bar>"
    by (rule cos_monotone_0_pi_le [OF p0 assms(1) ppi(2)])
  moreover have "0 \<le> cos \<bar>q\<bar>"
    by (rule cos_ge_zero [OF mp(2) assms(2)])
  ultimately have c: "(cos \<bar>q\<bar>)\<^sup>2 \<le> (cos \<bar>p\<bar>)\<^sup>2" by (rule power_mono)
  have e: "(sin p)\<^sup>2 = (sin \<bar>p\<bar>)\<^sup>2" "(sin q)\<^sup>2 = (sin \<bar>q\<bar>)\<^sup>2"
     "(cos p)\<^sup>2 = (cos \<bar>p\<bar>)\<^sup>2" "(cos q)\<^sup>2 = (cos \<bar>q\<bar>)\<^sup>2"
    using sin_cos_abs [of p] sin_cos_abs [of q] by blast+
  show ?thesis using s c by (simp only: e) 
qed

lemma attains_latitude_mono:
  assumes "attains_latitude la1 lo1 la2 lo2 l'" and "\<bar>l\<bar> \<le> \<bar>l'\<bar>" and "\<bar>l'\<bar> \<le> 90"
  shows "attains_latitude la1 lo1 la2 lo2 l"
proof -
  let ?Z = "(normal_z (radians la1) (radians lo1) (radians la2) (radians lo2))\<^sup>2"
  let ?S = "(normal_x (radians la1) (radians lo1) (radians la2) (radians lo2))\<^sup>2
        + (normal_y (radians la1) (radians lo1) (radians la2) (radians lo2))\<^sup>2"
  have r: "\<bar>radians x\<bar> = \<bar>x\<bar> * (pi / 180)" for x
    by (simp add: radians_def abs_mult)
  have a: "\<bar>radians l\<bar> \<le> \<bar>radians l'\<bar>"
    unfolding r using assms(2) by (intro mult_right_mono) simp_all
  have "\<bar>l'\<bar> * (pi / 180) \<le> 90 * (pi / 180)"
    using assms(3) by (intro mult_right_mono) simp_all
  then have b: "\<bar>radians l'\<bar> \<le> pi / 2"
    unfolding r by simp
  from sin_cos_sq_mono [OF a b]
  have s: "(sin (radians l))\<^sup>2 \<le> (sin (radians l'))\<^sup>2"
    and c: "(cos (radians l'))\<^sup>2 \<le> (cos (radians l))\<^sup>2" by simp_all
  have Z0: "0 \<le> ?Z" and S0: "0 \<le> ?S" by simp_all
  have "?Z * (sin (radians l))\<^sup>2 \<le> ?Z * (sin (radians l'))\<^sup>2"
    using s Z0 by (rule mult_left_mono)
  also have "\<dots> \<le> ?S * (cos (radians l'))\<^sup>2"
    using assms(1) by (simp only: attains_latitude_iff)
  also have "\<dots> \<le> ?S * (cos (radians l))\<^sup>2"
    using c S0 by (rule mult_left_mono)
  finally show ?thesis by (simp only: attains_latitude_iff)
qed

lemma attains_equator: "attains_latitude la1 lo1 la2 lo2 0"
  by (simp add: attains_latitude_iff radians_def)

lemma not_attained_iff:
  assumes "- 90 \<le> l" and "l \<le> 90"
  shows "(\<not> attains_latitude la1 lo1 la2 lo2 l) =
     (exceeds_maximum la1 lo1 la2 lo2 l \<or> below_minimum la1 lo1 la2 lo2 l)"
  unfolding exceeds_maximum_def below_minimum_def
proof
  assume n: "\<not> attains_latitude la1 lo1 la2 lo2 l"
  have "l \<noteq> 0"
  proof
    assume "l = 0"
    then show False using n attains_equator [of la1 lo1 la2 lo2] by simp
  qed
  then consider "0 < l" | "l < 0" by linarith
  then show "(\<forall>l'. - 90 \<le> l' \<and> l' \<le> 90 \<and> attains_latitude la1 lo1 la2 lo2 l' \<longrightarrow> l' < l)
      \<or> (\<forall>l'. - 90 \<le> l' \<and> l' \<le> 90 \<and> attains_latitude la1 lo1 la2 lo2 l' \<longrightarrow> l < l')"
  proof cases
    case 1
    have "l' < l" if h: "- 90 \<le> l'" "l' \<le> 90" "attains_latitude la1 lo1 la2 lo2 l'" for l'
    proof (rule ccontr)
      assume "\<not> l' < l"
      then have "\<bar>l\<bar> \<le> \<bar>l'\<bar>" "\<bar>l'\<bar> \<le> 90" using 1 h by linarith+
      then show False using attains_latitude_mono [OF h(3)] n by blast
    qed
    then show ?thesis by blast
  next
    case 2
    have "l < l'" if h: "- 90 \<le> l'" "l' \<le> 90" "attains_latitude la1 lo1 la2 lo2 l'" for l'
    proof (rule ccontr)
      assume "\<not> l < l'"
      then have "\<bar>l\<bar> \<le> \<bar>l'\<bar>" "\<bar>l'\<bar> \<le> 90" using 2 h by linarith+
      then show False using attains_latitude_mono [OF h(3)] n by blast
    qed
    then show ?thesis by blast
  qed
next
  assume "(\<forall>l'. - 90 \<le> l' \<and> l' \<le> 90 \<and> attains_latitude la1 lo1 la2 lo2 l' \<longrightarrow> l' < l)
      \<or> (\<forall>l'. - 90 \<le> l' \<and> l' \<le> 90 \<and> attains_latitude la1 lo1 la2 lo2 l' \<longrightarrow> l < l')"
  then show "\<not> attains_latitude la1 lo1 la2 lo2 l"
  proof
    assume 1: "\<forall>l'. - 90 \<le> l' \<and> l' \<le> 90 \<and> attains_latitude la1 lo1 la2 lo2 l' \<longrightarrow> l' < l"
    show ?thesis
    proof
      assume "attains_latitude la1 lo1 la2 lo2 l"
      then have "l < l" using 1 assms by blast
      then show False by simp
    qed
  next
    assume 2: "\<forall>l'. - 90 \<le> l' \<and> l' \<le> 90 \<and> attains_latitude la1 lo1 la2 lo2 l' \<longrightarrow> l < l'"
    show ?thesis
    proof
      assume "attains_latitude la1 lo1 la2 lo2 l"
      then have "l < l" using 2 assms by blast
      then show False by simp
    qed
  qed
qed


lemma crossingParallels_null_or_pair:
  "crossingParallels (VLatLon p1) (VLatLon p2) l = Inr None
   \<or> (\<exists>c. crossingParallels (VLatLon p1) (VLatLon p2) l = Inr (Some c))"
  by (simp add: crossingParallels_def bind_def Let_def)

text \<open>
  C9 as the code has it. For two points with finite coordinates and a finite latitude,
  \<open>crossingParallels\<close> returns \<open>null\<close> exactly when \<open>z\<^sup>2 > x\<^sup>2 + y\<^sup>2\<close>, which is exactly when
  the great circle through the two points never reaches the requested latitude; otherwise
  it returns a pair of longitudes. For a requested latitude between \<open>-90\<close> and \<open>90\<close>
  degrees, never reaching it means that it exceeds the maximum latitude of the great
  circle or is below its minimum latitude.
\<close>

theorem crossingParallels_null_exactly_when:
  "((crossingParallels (VLatLon \<lparr>lat = Fin la1, lon = Fin lo1\<rparr>)
       (VLatLon \<lparr>lat = Fin la2, lon = Fin lo2\<rparr>) (Fin l) = Inr None)
    = (crossing_z (radians la1) (radians la2) (radians l) (radians lo2 - radians lo1)
       * crossing_z (radians la1) (radians la2) (radians l) (radians lo2 - radians lo1)
       > crossing_x (radians la1) (radians la2) (radians l) (radians lo2 - radians lo1)
         * crossing_x (radians la1) (radians la2) (radians l) (radians lo2 - radians lo1)
       + crossing_y (radians la1) (radians la2) (radians l) (radians lo2 - radians lo1)
         * crossing_y (radians la1) (radians la2) (radians l) (radians lo2 - radians lo1)))
   \<and> ((crossingParallels (VLatLon \<lparr>lat = Fin la1, lon = Fin lo1\<rparr>)
       (VLatLon \<lparr>lat = Fin la2, lon = Fin lo2\<rparr>) (Fin l) = Inr None)
      = (\<not> attains_latitude la1 lo1 la2 lo2 l))
   \<and> (crossingParallels (VLatLon \<lparr>lat = Fin la1, lon = Fin lo1\<rparr>)
       (VLatLon \<lparr>lat = Fin la2, lon = Fin lo2\<rparr>) (Fin l) = Inr None
      \<or> (\<exists>c. crossingParallels (VLatLon \<lparr>lat = Fin la1, lon = Fin lo1\<rparr>)
            (VLatLon \<lparr>lat = Fin la2, lon = Fin lo2\<rparr>) (Fin l) = Inr (Some c)))
   \<and> (- 90 \<le> l \<and> l \<le> 90 \<longrightarrow>
       (crossingParallels (VLatLon \<lparr>lat = Fin la1, lon = Fin lo1\<rparr>)
          (VLatLon \<lparr>lat = Fin la2, lon = Fin lo2\<rparr>) (Fin l) = Inr None)
       = (exceeds_maximum la1 lo1 la2 lo2 l \<or> below_minimum la1 lo1 la2 lo2 l))"
  using crossingParallels_test [of la1 lo1 la2 lo2 l]
        crossingParallels_null_or_pair [of "\<lparr>lat = Fin la1, lon = Fin lo1\<rparr>"
          "\<lparr>lat = Fin la2, lon = Fin lo2\<rparr>" "Fin l"]
        not_attained_iff [of l la1 lo1 la2 lo2]
  by (simp only: crossingParallels_null_iff_attains) blast

lemma eval_crossingParallels_south:
  "crossingParallels (VLatLon \<lparr>lat = Fin 0, lon = Fin 0\<rparr>) (VLatLon \<lparr>lat = Fin 0, lon = Fin 90\<rparr>)
     (Fin (- 30)) = Inr None"
  by (simp add: crossingParallels_def bind_def toRadians_Fin num_ops Let_def sin_30)

text \<open>The equator and the parallel of 30\<degree>S.\<close>

theorem crossingParallels_null_exactly_when_witness:
  "(- 90 :: real) \<le> - 30 \<and> (- 30 :: real) \<le> 90
   \<and> crossingParallels (VLatLon \<lparr>lat = Fin 0, lon = Fin 0\<rparr>) (VLatLon \<lparr>lat = Fin 0, lon = Fin 90\<rparr>)
       (Fin (- 30)) = Inr None
   \<and> \<not> attains_latitude 0 0 0 90 (- 30)
   \<and> (exceeds_maximum 0 0 0 90 (- 30) \<or> below_minimum 0 0 0 90 (- 30))"
  using crossingParallels_null_exactly_when [of 0 0 0 90 "- 30"] eval_crossingParallels_south
  by simp

lemma equator_not_exceeded: "\<not> exceeds_maximum 0 0 0 90 (- 30)"
proof
  assume a: "exceeds_maximum 0 0 0 90 (- 30)"
  have "(0::real) < - 30"
    by (rule a [unfolded exceeds_maximum_def, rule_format]) (simp add: attains_equator)
  then show False by simp
qed

text \<open>
  C9 as stated fails south of the great circle: the equator (through (0\<degree>, 0\<degree>) and
  (0\<degree>, 90\<degree>E)) never reaches 30\<degree>S and the result is \<open>null\<close>, although \<open>-30\<close> does not
  exceed the maximum latitude of the equator, which is 0.
\<close>

theorem crossingParallels_south_counterexample:
  "crossingParallels (VLatLon \<lparr>lat = Fin 0, lon = Fin 0\<rparr>) (VLatLon \<lparr>lat = Fin 0, lon = Fin 90\<rparr>)
     (Fin (- 30)) = Inr None
   \<and> \<not> exceeds_maximum 0 0 0 90 (- 30)"
  by (simp add: eval_crossingParallels_south equator_not_exceeded)

end
